theory Spec2Isabelle
  imports Main
begin

section \<open>Exceptions, requests and JavaScript truthiness\<close>

text \<open>
  The NestJS exceptions the sources throw, each with its message. \<open>BSONError\<close> and
  \<open>CollaboratorError\<close> stand for errors raised inside collaborators of the sources
  (the ObjectId constructor, the users/teams services, the document store). The last three
  are rejections of the specification's taxonomy that only \<open>AuthService\<close> raises; its
  exception classes and messages are not visible in the sources.
  \<open>PassportUnauthorized\<close> is the rejection of the passport layer itself, when it finds
  no token in the request or the token's signature or expiry does not verify.
\<close>

datatype exn =
    UnauthorizedException string
  | BadRequestException string
  | NotFoundException string
  | ForbiddenException string
  | BSONError string
  | CollaboratorError string
  | InvalidCredentials
  | InvalidOrExpiredToken
  | TokenReplayDetected
  | PassportUnauthorized

text \<open>
  An Express request as the sources read it: the cookie jar (\<open>req.cookies\<close>, an
  association list from cookie name to value; a missing jar and an empty one both give
  \<open>undefined\<close> for \<open>req.cookies?.accessToken\<close>), the \<open>Authorization\<close> header,
  \<open>req.ip\<close>, the \<open>user-agent\<close> header and \<open>req.user\<close>. The type of \<open>req.user\<close>
  is a parameter: \<open>unit\<close> before authentication, and what the route's guard has
  attached once a guarded handler runs.
\<close>

record 'u request =
  cookies :: "(string \<times> string) list"
  authorization :: "string option"
  ip :: "string option"
  userAgent :: "string option"
  user :: 'u

text \<open>A string-or-undefined value is truthy when it is a non-empty string.\<close>

definition truthy :: "string option \<Rightarrow> bool" where
  "truthy v = (case v of None \<Rightarrow> False | Some s \<Rightarrow> s \<noteq> [])"

text \<open>\<open>a || b\<close> on string-or-undefined values.\<close>

definition js_or :: "string option \<Rightarrow> string option \<Rightarrow> string option" where
  "js_or a b = (if truthy a then a else b)"

text \<open>
  \<open>s.replace(pat, rep)\<close> with a string pattern: only the first occurrence of
  \<open>pat\<close> is replaced (the replacement used by the sources is the empty string, which
  has no \<open>$\<close> patterns).
\<close>

fun replace_first :: "string \<Rightarrow> string \<Rightarrow> string \<Rightarrow> string" where
  "replace_first pat rep [] = (if pat = [] then rep else [])"
| "replace_first pat rep (c # cs) =
     (if take (length pat) (c # cs) = pat then rep @ drop (length pat) (c # cs)
      else c # replace_first pat rep cs)"

section \<open>Session validator: \<open>JwtStrategy.validate\<close>\<close>

text \<open>
  The user document as the session validator reads it. \<open>Date\<close> values are their
  \<open>getTime()\<close>, milliseconds since the epoch; a field that is unset is \<open>None\<close>.
  Only \<open>lastPasswordChange\<close> and \<open>lockoutUntil\<close> are read by \<open>validate\<close>; the
  remaining fields follow the Identity of the specification (the user schema is not among
  the sources) and are used by the login policy engine below.
\<close>

record user =
  user_id :: string
  user_email :: string
  passwordHash :: "string option"
  oauthLink :: "(string \<times> string) option"
  twoFactorEnabled :: bool
  failedLoginAttempts :: nat
  lockoutUntil :: "int option"
  lastPasswordChange :: "int option"
  emailVerified :: bool

text \<open>The decoded JWT payload handed to \<open>validate\<close>; \<open>iat\<close> and \<open>exp\<close> are in seconds.\<close>

record payload =
  sub :: string
  email :: string
  provider :: string
  iat :: int
  exp :: int

text \<open>The object \<open>validate\<close> returns, attached to \<open>request.user\<close>.\<close>

record principal =
  principal_sub :: string
  principal_email :: string
  principal_provider :: string
  principal_iat :: int

text \<open>
  Line 43: \<open>req.cookies?.accessToken || req.headers.authorization?.replace('Bearer ', '')\<close>.
\<close>

definition request_token :: "'u request \<Rightarrow> string option" where
  "request_token req =
     js_or (map_of (cookies req) ''accessToken'')
           (map_option (replace_first ''Bearer '' '''') (authorization req))"

text \<open>
  \<open>validate(req, payload)\<close>. The collaborators are parameters: \<open>isTokenBlacklisted\<close>
  is \<open>TokenBlacklistService.isTokenBlacklisted\<close>, \<open>findById\<close> is
  \<open>UsersService.findById\<close>, and \<open>now\<close> is the value of \<open>new Date()\<close> in
  milliseconds. \<open>Math.floor(d.getTime() / 1000)\<close> is \<open>div 1000\<close> on \<open>int\<close>, which
  rounds towards minus infinity as \<open>Math.floor\<close> does.
\<close>

definition validate ::
  "(string \<Rightarrow> bool) \<Rightarrow> (string \<Rightarrow> user option) \<Rightarrow> int \<Rightarrow> 'u request \<Rightarrow> payload
     \<Rightarrow> exn + principal" where
  "validate isTokenBlacklisted findById now req pl =
     (let token = request_token req in
      if truthy token \<and> (case token of None \<Rightarrow> False | Some t \<Rightarrow> isTokenBlacklisted t)
      then Inl (UnauthorizedException ''Token has been revoked'')
      else
        (case findById (sub pl) of
           None \<Rightarrow> Inl (UnauthorizedException ''User not found'')
         | Some u \<Rightarrow>
             if (case lastPasswordChange u of
                   None \<Rightarrow> False
                 | Some changed \<Rightarrow> iat pl < changed div 1000)
             then Inl (UnauthorizedException ''Password was changed. Please login again.'')
             else if (case lockoutUntil u of None \<Rightarrow> False | Some until \<Rightarrow> until > now)
             then Inl (UnauthorizedException ''Account is locked'')
             else Inr \<lparr> principal_sub = sub pl, principal_email = email pl,
                        principal_provider = provider pl, principal_iat = iat pl \<rparr>))"

subsection \<open>The strategy's configuration: extraction and verification\<close>

text \<open>
  The constructor (lines 27-38) configures the passport-jwt strategy with two extractors,
  tried in order: the \<open>accessToken\<close> cookie, then
  \<open>ExtractJwt.fromAuthHeaderAsBearerToken()\<close>. The latter is code of the passport-jwt
  library: it parses the \<open>Authorization\<close> header with \<open>/(\S+)\s+(\S+)/\<close>, that is, into
  its first two runs of non-whitespace (of the whitespace of ASCII, here), and returns the
  second when the first equals
  \<open>bearer\<close> ignoring case.
\<close>

definition is_space :: "char \<Rightarrow> bool" where
  "is_space c = (c \<in> set [CHR '' '', CHR 0x09, CHR 0x0A, CHR 0x0B, CHR 0x0C, CHR 0x0D])"

text \<open>The runs of non-whitespace of a string, in order; \<open>acc\<close> is the run being read, reversed.\<close>

fun split_words :: "string \<Rightarrow> string \<Rightarrow> string list" where
  "split_words acc [] = (if acc = [] then [] else [rev acc])"
| "split_words acc (c # cs) =
     (if is_space c
      then (if acc = [] then split_words [] cs else rev acc # split_words [] cs)
      else split_words (c # acc) cs)"

text \<open>The leftmost match of \<open>/(\S+)\s+(\S+)/\<close>: the first two words, when there are two.\<close>

definition parseAuthHeader :: "string \<Rightarrow> (string \<times> string) option" where
  "parseAuthHeader h =
     (case split_words [] h of scheme # tokenValue # _ \<Rightarrow> Some (scheme, tokenValue) | _ \<Rightarrow> None)"

text \<open>\<open>toLowerCase()\<close> on the letters of ASCII.\<close>

definition lower_char :: "char \<Rightarrow> char" where
  "lower_char c =
     (case map_of (zip ''ABCDEFGHIJKLMNOPQRSTUVWXYZ'' ''abcdefghijklmnopqrstuvwxyz'') c of
        Some l \<Rightarrow> l
      | None \<Rightarrow> c)"

definition fromAuthHeaderAsBearerToken :: "'u request \<Rightarrow> string option" where
  "fromAuthHeaderAsBearerToken req =
     (case authorization req of
        None \<Rightarrow> None
      | Some h \<Rightarrow>
          if h = [] then None
          else (case parseAuthHeader h of
                  None \<Rightarrow> None
                | Some (scheme, tokenValue) \<Rightarrow>
                    if map lower_char scheme = ''bearer'' then Some tokenValue else None))"

text \<open>
  \<open>jwtFromRequest\<close> (lines 28-35), \<open>ExtractJwt.fromExtractors\<close> of the two: the cookie
  when it is truthy, else what the header extractor returns.
\<close>

definition jwtFromRequest :: "'u request \<Rightarrow> string option" where
  "jwtFromRequest req =
     js_or (map_of (cookies req) ''accessToken'') (fromAuthHeaderAsBearerToken req)"

text \<open>
  What the strategy does with a request, the \<open>validate(rawToken)\<close> of the specification:
  it extracts the token, fails when there is none, verifies signature and expiry
  (\<open>verify\<close>, the library's verification with the configured secret, which gives the
  payload or nothing), and with \<open>passReqToCallback\<close> calls \<open>validate(req, payload)\<close>.
\<close>

definition authenticate ::
  "(string \<Rightarrow> payload option) \<Rightarrow> (string \<Rightarrow> bool) \<Rightarrow> (string \<Rightarrow> user option) \<Rightarrow> int
     \<Rightarrow> 'u request \<Rightarrow> exn + principal" where
  "authenticate verify isTokenBlacklisted findById now req =
     (case jwtFromRequest req of
        None \<Rightarrow> Inl PassportUnauthorized
      | Some t \<Rightarrow>
          if t = [] then Inl PassportUnauthorized
          else (case verify t of
                  None \<Rightarrow> Inl PassportUnauthorized
                | Some pl \<Rightarrow> validate isTokenBlacklisted findById now req pl))"

text \<open>The rejection reasons of the specification, as the exceptions \<open>validate\<close> throws.\<close>

definition TokenRevoked :: exn where
  "TokenRevoked = UnauthorizedException ''Token has been revoked''"

definition IdentityNotFound :: exn where
  "IdentityNotFound = UnauthorizedException ''User not found''"

definition StaleCredentials :: exn where
  "StaleCredentials = UnauthorizedException ''Password was changed. Please login again.''"

definition AccountLocked :: exn where
  "AccountLocked = UnauthorizedException ''Account is locked''"

subsection \<open>The validator's checks, named\<close>

text \<open>The principal built from a payload: subject id, email, issuing provider, issued-at.\<close>

definition principal_of :: "payload \<Rightarrow> principal" where
  "principal_of pl = \<lparr> principal_sub = sub pl, principal_email = email pl,
                      principal_provider = provider pl, principal_iat = iat pl \<rparr>"

text \<open>
  A request presents the access token \<open>t\<close> when \<open>t\<close> is the token the strategy's
  extractor takes from it, the token whose signature and expiry are then verified.
\<close>

definition presents :: "'u request \<Rightarrow> string \<Rightarrow> bool" where
  "presents req t = (t \<noteq> [] \<and> jwtFromRequest req = Some t)"

text \<open>
  On such a request line 43 reads back the token that is presented: the string asked of
  the blacklist is the token that was verified.
\<close>

definition reads_presented_token :: "'u request \<Rightarrow> bool" where
  "reads_presented_token req = (\<forall>t. presents req t \<longrightarrow> request_token req = Some t)"

text \<open>The revocation check of lines 45-51: a token is in the request and it is blacklisted.\<close>

definition token_revoked :: "(string \<Rightarrow> bool) \<Rightarrow> 'u request \<Rightarrow> bool" where
  "token_revoked isTokenBlacklisted req =
     (case request_token req of None \<Rightarrow> False | Some t \<Rightarrow> t \<noteq> [] \<and> isTokenBlacklisted t)"

text \<open>
  The staleness check of lines 59-65: a last password change is recorded and the token's
  issued-at is below the change time truncated to whole seconds.
\<close>

definition stale_by_seconds :: "user \<Rightarrow> payload \<Rightarrow> bool" where
  "stale_by_seconds u pl =
     (case lastPasswordChange u of None \<Rightarrow> False | Some changed \<Rightarrow> iat pl < changed div 1000)"

text \<open>The lockout check of lines 67-70: a lockout instant is recorded and lies in the future.\<close>

definition locked_out :: "user \<Rightarrow> int \<Rightarrow> bool" where
  "locked_out u now = (case lockoutUntil u of None \<Rightarrow> False | Some until \<Rightarrow> now < until)"


subsection \<open>Example data\<close>

text \<open>
  An identity whose password was last changed at 100.5 seconds, payloads of tokens issued to
  it, and requests carrying a token in the cookie or in the header.
\<close>

definition alice :: user where
  "alice = \<lparr> user_id = ''u1'', user_email = ''a@x.com'', passwordHash = Some ''h(p1)'',
             oauthLink = None, twoFactorEnabled = False, failedLoginAttempts = 0,
             lockoutUntil = None, lastPasswordChange = Some 100500, emailVerified = True \<rparr>"

definition alice_payload :: "int \<Rightarrow> payload" where
  "alice_payload issued = \<lparr> sub = ''u1'', email = ''a@x.com'', provider = ''local'',
                            iat = issued, exp = issued + 900 \<rparr>"

definition cookie_request :: "string \<Rightarrow> unit request" where
  "cookie_request t = \<lparr> cookies = [(''accessToken'', t)], authorization = None, ip = None,
                        userAgent = None, user = () \<rparr>"

definition bearer_request :: "string \<Rightarrow> unit request" where
  "bearer_request t = \<lparr> cookies = [], authorization = Some (''Bearer '' @ t), ip = None,
                        userAgent = None, user = () \<rparr>"

text \<open>
  Requests whose \<open>Authorization\<close> header spells the scheme in lower case, or separates
  scheme and token by two spaces, and a verification that knows the tokens \<open>tokA\<close>,
  \<open>tokB\<close> and \<open>tokA2\<close> of \<open>alice\<close>.
\<close>

definition lowercase_bearer_request :: "string \<Rightarrow> unit request" where
  "lowercase_bearer_request t = \<lparr> cookies = [], authorization = Some (''bearer '' @ t),
                                  ip = None, userAgent = None, user = () \<rparr>"

definition spaced_bearer_request :: "string \<Rightarrow> unit request" where
  "spaced_bearer_request t = \<lparr> cookies = [], authorization = Some (''Bearer  '' @ t),
                               ip = None, userAgent = None, user = () \<rparr>"

definition demo_verify :: "string \<Rightarrow> payload option" where
  "demo_verify =
     map_of [(''tokA'', alice_payload 200), (''tokB'', alice_payload 99),
             (''tokA2'', alice_payload 60)]"

definition fresh_alice :: user where
  "fresh_alice = alice \<lparr> lastPasswordChange := None \<rparr>"

definition locked_alice :: user where
  "locked_alice = alice \<lparr> lockoutUntil := Some 5000 \<rparr>"

section \<open>Projects CRUD layer: \<open>ProjectsService\<close>\<close>

text \<open>
  An ObjectId is represented by its \<open>toString()\<close>; a \<open>Date\<close> built from a DTO string by
  that string.
\<close>

type_synonym oid = string

record project =
  proj_id :: oid
  name :: string
  description :: "string option"
  status :: string
  createdBy :: oid
  members :: "oid list"
  progress :: int
  startDate :: "string option"
  endDate :: "string option"
  teamId :: "oid option"

record createProjectDto =
  dto_name :: string
  dto_description :: "string option"
  dto_status :: "string option"
  dto_members :: "string list option"
  dto_progress :: "int option"
  dto_startDate :: "string option"
  dto_endDate :: "string option"

record updateProjectDto =
  upd_name :: "string option"
  upd_description :: "string option"
  upd_status :: "string option"
  upd_members :: "string list option"
  upd_progress :: "int option"
  upd_startDate :: "string option"
  upd_endDate :: "string option"

text \<open>The calls made on the project model of the document store.\<close>

datatype db_call = Save project | FindById string

text \<open>
  The collaborators of \<open>ProjectsService\<close>, none of which is among the sources, as
  parameters. Each may throw (\<open>Inl\<close>): \<open>UsersService.findByEmail\<close>,
  \<open>TeamsService.createFromProject\<close> (of the team it returns only \<open>_id\<close> is read),
  \<open>TeamsService.updateProjectTeamMembers\<close> and the \<open>Types.ObjectId\<close> constructor.
  \<open>newId\<close> is the \<open>_id\<close> the model gives a new document, and \<open>dbError\<close> says
  which calls on the document store fail, and with what.
\<close>

record penv =
  findByEmail :: "string \<Rightarrow> exn + user option"
  createFromProject :: "string \<Rightarrow> string \<Rightarrow> string \<Rightarrow> string list \<Rightarrow> exn + oid"
  updateProjectTeamMembers :: "string \<Rightarrow> string list \<Rightarrow> exn + unit"
  objectId :: "string \<Rightarrow> exn + oid"
  newId :: oid
  dbError :: "db_call \<Rightarrow> exn option"

text \<open>
  The state the service works on: the projects collection, and what \<open>console.error\<close> has
  printed (the exceptions the catch blocks log).
\<close>

record pstate =
  projects :: "oid \<Rightarrow> project option"
  console :: "exn list"

text \<open>\<open>doc.save()\<close>: writes the document under its \<open>_id\<close>, or throws.\<close>

definition db_save :: "penv \<Rightarrow> pstate \<Rightarrow> project \<Rightarrow> (exn + project) \<times> pstate" where
  "db_save env st p =
     (case dbError env (Save p) of
        Some e \<Rightarrow> (Inl e, st)
      | None \<Rightarrow> (Inr p, st \<lparr> projects := (projects st)(proj_id p \<mapsto> p) \<rparr>))"

text \<open>
  \<open>projectModel.findById(id)\<close>, with or without \<open>populate\<close>, which only expands the
  references of the document found: the stored document or \<open>null\<close>, or it throws.
\<close>

definition db_findById :: "penv \<Rightarrow> pstate \<Rightarrow> string \<Rightarrow> exn + project option" where
  "db_findById env st i =
     (case dbError env (FindById i) of Some e \<Rightarrow> Inl e | None \<Rightarrow> Inr (projects st i))"

text \<open>\<open>ids.map(id => new Types.ObjectId(id))\<close>: the first constructor that throws ends the map.\<close>

fun objectIds :: "(string \<Rightarrow> exn + oid) \<Rightarrow> string list \<Rightarrow> exn + oid list" where
  "objectIds mk [] = Inr []"
| "objectIds mk (x # xs) =
     (case mk x of
        Inl e \<Rightarrow> Inl e
      | Inr i \<Rightarrow> (case objectIds mk xs of Inl e \<Rightarrow> Inl e | Inr is \<Rightarrow> Inr (i # is)))"

text \<open>\<open>console.error(..., error)\<close> in a catch block.\<close>

definition log_error :: "exn \<Rightarrow> pstate \<Rightarrow> pstate" where
  "log_error e st = st \<lparr> console := console st @ [e] \<rparr>"

text \<open>A DTO date string that is truthy becomes a date; otherwise the field is undefined.\<close>

definition date_of :: "string option \<Rightarrow> string option" where
  "date_of d = (if truthy d then d else None)"

text \<open>\<open>createProjectDto.members || []\<close>.\<close>

definition members_or_empty :: "createProjectDto \<Rightarrow> string list" where
  "members_or_empty dto = (case dto_members dto of None \<Rightarrow> [] | Some ms \<Rightarrow> ms)"

text \<open>The document \<open>create\<close> builds (lines 23-32), before it is saved.\<close>

definition new_project :: "penv \<Rightarrow> createProjectDto \<Rightarrow> user \<Rightarrow> oid list \<Rightarrow> project" where
  "new_project env dto u ms =
     \<lparr> proj_id = newId env,
       name = dto_name dto,
       description = dto_description dto,
       status = (case js_or (dto_status dto) (Some ''active'') of Some s \<Rightarrow> s | None \<Rightarrow> ''active''),
       createdBy = user_id u,
       members = ms,
       progress = (case dto_progress dto of None \<Rightarrow> 0 | Some p \<Rightarrow> p),
       startDate = date_of (dto_startDate dto),
       endDate = date_of (dto_endDate dto),
       teamId = None \<rparr>"

text \<open>
  \<open>ProjectsService.create\<close> (lines 18-59). The try block of lines 37-51 provisions the
  team and stores its id in the project; whatever it throws is logged and dropped.
\<close>

definition create ::
  "penv \<Rightarrow> createProjectDto \<Rightarrow> string \<Rightarrow> pstate \<Rightarrow> (exn + project option) \<times> pstate" where
  "create env dto userEmail st =
     (case findByEmail env userEmail of
        Inl e \<Rightarrow> (Inl e, st)
      | Inr None \<Rightarrow> (Inl (NotFoundException ''User not found''), st)
      | Inr (Some u) \<Rightarrow>
          (case objectIds (objectId env) (members_or_empty dto) of
             Inl e \<Rightarrow> (Inl e, st)
           | Inr ms \<Rightarrow>
               (case db_save env st (new_project env dto u ms) of
                  (Inl e, st1) \<Rightarrow> (Inl e, st1)
                | (Inr savedProject, st1) \<Rightarrow>
                    (let st2 =
                       (case createFromProject env (proj_id savedProject) (dto_name dto) userEmail
                               (members_or_empty dto) of
                          Inl e \<Rightarrow> log_error e st1
                        | Inr team \<Rightarrow>
                            (case db_save env st1 (savedProject \<lparr> teamId := Some team \<rparr>) of
                               (Inl e, s) \<Rightarrow> log_error e s
                             | (Inr _, s) \<Rightarrow> s))
                     in (case db_findById env st2 (proj_id savedProject) of
                           Inl e \<Rightarrow> (Inl e, st2)
                         | Inr found \<Rightarrow> (Inr found, st2))))))"

text \<open>
  The fields \<open>update\<close> assigns after the members (lines 131-144): the dates when given
  and truthy, and \<open>name\<close>, \<open>description\<close>, \<open>status\<close>, \<open>progress\<close> with \<open>??\<close>.
\<close>

definition assign_fields :: "updateProjectDto \<Rightarrow> project \<Rightarrow> project" where
  "assign_fields dto p =
     p \<lparr> startDate := (if truthy (upd_startDate dto) then upd_startDate dto else startDate p),
         endDate := (if truthy (upd_endDate dto) then upd_endDate dto else endDate p),
         name := (case upd_name dto of None \<Rightarrow> name p | Some n \<Rightarrow> n),
         description := (case upd_description dto of None \<Rightarrow> description p | Some d \<Rightarrow> Some d),
         status := (case upd_status dto of None \<Rightarrow> status p | Some s \<Rightarrow> s),
         progress := (case upd_progress dto of None \<Rightarrow> progress p | Some g \<Rightarrow> g) \<rparr>"

text \<open>
  \<open>ProjectsService.update\<close> (lines 109-147). Only the call of
  \<open>updateProjectTeamMembers\<close> stands in the try block (lines 124-128).
\<close>

definition update ::
  "penv \<Rightarrow> string \<Rightarrow> updateProjectDto \<Rightarrow> string \<Rightarrow> pstate \<Rightarrow> (exn + project) \<times> pstate" where
  "update env i dto userEmail st =
     (case findByEmail env userEmail of
        Inl e \<Rightarrow> (Inl e, st)
      | Inr None \<Rightarrow> (Inl (NotFoundException ''User not found''), st)
      | Inr (Some u) \<Rightarrow>
          (case db_findById env st i of
             Inl e \<Rightarrow> (Inl e, st)
           | Inr None \<Rightarrow> (Inl (NotFoundException ''Project not found''), st)
           | Inr (Some p) \<Rightarrow>
               if createdBy p \<noteq> user_id u
               then (Inl (ForbiddenException ''Only the project creator can update this project''), st)
               else
                 (case (case upd_members dto of
                          None \<Rightarrow> Inr (p, st)
                        | Some ms \<Rightarrow>
                            (case objectIds (objectId env) ms of
                               Inl e \<Rightarrow> Inl e
                             | Inr oids \<Rightarrow>
                                 Inr (p \<lparr> members := oids \<rparr>,
                                      (case updateProjectTeamMembers env i ms of
                                         Inl e \<Rightarrow> log_error e st
                                       | Inr _ \<Rightarrow> st)))) of
                    Inl e \<Rightarrow> (Inl e, st)
                  | Inr (p1, st1) \<Rightarrow> db_save env st1 (assign_fields dto p1))))"

text \<open>The project \<open>update\<close> saves when the DTO carries the member list \<open>oids\<close>.\<close>

definition updated_project :: "updateProjectDto \<Rightarrow> project \<Rightarrow> oid list \<Rightarrow> project" where
  "updated_project dto p oids = assign_fields dto (p \<lparr> members := oids \<rparr>)"

text \<open>The projects \<open>addMember\<close> and \<open>removeMember\<close> save.\<close>

definition with_member :: "project \<Rightarrow> oid \<Rightarrow> project" where
  "with_member p m = p \<lparr> members := members p @ [m] \<rparr>"

definition without_member :: "project \<Rightarrow> string \<Rightarrow> project" where
  "without_member p userId = p \<lparr> members := filter (\<lambda>m. m \<noteq> userId) (members p) \<rparr>"

text \<open>The store after a document has been written.\<close>

definition stored :: "project \<Rightarrow> pstate \<Rightarrow> pstate" where
  "stored p st = st \<lparr> projects := (projects st)(proj_id p \<mapsto> p) \<rparr>"

text \<open>
  \<open>ProjectsService.addMember\<close> (lines 170-203). The member is pushed and the project saved
  before the try block of lines 187-192 synchronises the team.
\<close>

definition addMember ::
  "penv \<Rightarrow> string \<Rightarrow> string \<Rightarrow> string \<Rightarrow> pstate \<Rightarrow> (exn + project) \<times> pstate" where
  "addMember env i userId userEmail st =
     (case findByEmail env userEmail of
        Inl e \<Rightarrow> (Inl e, st)
      | Inr None \<Rightarrow> (Inl (NotFoundException ''User not found''), st)
      | Inr (Some u) \<Rightarrow>
          (case db_findById env st i of
             Inl e \<Rightarrow> (Inl e, st)
           | Inr None \<Rightarrow> (Inl (NotFoundException ''Project not found''), st)
           | Inr (Some p) \<Rightarrow>
               if createdBy p \<noteq> user_id u
               then (Inl (ForbiddenException ''Only the project creator can add members''), st)
               else
                 (case objectId env userId of
                    Inl e \<Rightarrow> (Inl e, st)
                  | Inr memberObjectId \<Rightarrow>
                      (case (if memberObjectId \<notin> set (members p)
                             then (case db_save env st (with_member p memberObjectId) of
                                     (Inl e, s) \<Rightarrow> Inl (e, s)
                                   | (Inr p1, s) \<Rightarrow>
                                       Inr (case updateProjectTeamMembers env i (members p1) of
                                              Inl e \<Rightarrow> log_error e s
                                            | Inr _ \<Rightarrow> s))
                             else Inr st) of
                         Inl (e, s) \<Rightarrow> (Inl e, s)
                       | Inr st1 \<Rightarrow>
                           (case db_findById env st1 i of
                              Inl e \<Rightarrow> (Inl e, st1)
                            | Inr None \<Rightarrow> (Inl (NotFoundException ''Project not found''), st1)
                            | Inr (Some updatedProject) \<Rightarrow> (Inr updatedProject, st1))))))"

text \<open>
  \<open>ProjectsService.removeMember\<close> (lines 205-235): the member is filtered out and the
  project saved, then the try block of lines 220-225 synchronises the team.
\<close>

definition removeMember ::
  "penv \<Rightarrow> string \<Rightarrow> string \<Rightarrow> string \<Rightarrow> pstate \<Rightarrow> (exn + project) \<times> pstate" where
  "removeMember env i userId userEmail st =
     (case findByEmail env userEmail of
        Inl e \<Rightarrow> (Inl e, st)
      | Inr None \<Rightarrow> (Inl (NotFoundException ''User not found''), st)
      | Inr (Some u) \<Rightarrow>
          (case db_findById env st i of
             Inl e \<Rightarrow> (Inl e, st)
           | Inr None \<Rightarrow> (Inl (NotFoundException ''Project not found''), st)
           | Inr (Some p) \<Rightarrow>
               if createdBy p \<noteq> user_id u
               then (Inl (ForbiddenException ''Only the project creator can remove members''), st)
               else
                 (case db_save env st (without_member p userId) of
                    (Inl e, s) \<Rightarrow> (Inl e, s)
                  | (Inr p1, s) \<Rightarrow>
                      (let st1 = (case updateProjectTeamMembers env i (members p1) of
                                    Inl e \<Rightarrow> log_error e s
                                  | Inr _ \<Rightarrow> s)
                       in (case db_findById env st1 i of
                             Inl e \<Rightarrow> (Inl e, st1)
                           | Inr None \<Rightarrow> (Inl (NotFoundException ''Project not found''), st1)
                           | Inr (Some updatedProject) \<Rightarrow> (Inr updatedProject, st1))))))"

subsection \<open>Example collaborators\<close>

text \<open>
  A teams service that is down (every call throws) beside working users and document
  services, and a store holding one project of \<open>alice\<close>.
\<close>

definition teams_down :: exn where
  "teams_down = CollaboratorError ''teams service unavailable''"

definition teams_down_env :: penv where
  "teams_down_env =
     \<lparr> findByEmail = (\<lambda>e. Inr (map_of [(''a@x.com'', alice)] e)),
       createFromProject = (\<lambda>_ _ _ _. Inl teams_down),
       updateProjectTeamMembers = (\<lambda>_ _. Inl teams_down),
       objectId = Inr,
       newId = ''p1'',
       dbError = (\<lambda>_. None) \<rparr>"

definition roadmap_dto :: createProjectDto where
  "roadmap_dto = \<lparr> dto_name = ''Roadmap'', dto_description = None, dto_status = None,
                   dto_members = Some [''u2''], dto_progress = None, dto_startDate = None,
                   dto_endDate = None \<rparr>"

definition roadmap :: project where
  "roadmap = \<lparr> proj_id = ''p1'', name = ''Roadmap'', description = None, status = ''active'',
               createdBy = ''u1'', members = [''u2''], progress = 0, startDate = None,
               endDate = None, teamId = None \<rparr>"

definition members_dto :: updateProjectDto where
  "members_dto = \<lparr> upd_name = None, upd_description = None, upd_status = Some ''done'',
                   upd_members = Some [''u3''], upd_progress = None, upd_startDate = None,
                   upd_endDate = None \<rparr>"

definition no_projects :: pstate where
  "no_projects = \<lparr> projects = Map.empty, console = [] \<rparr>"

definition one_project :: pstate where
  "one_project = \<lparr> projects = [''p1'' \<mapsto> roadmap], console = [] \<rparr>"

text \<open>Collaborators that fail elsewhere: the users service, the store, the ObjectId constructor.\<close>

definition users_down_env :: penv where
  "users_down_env = teams_down_env \<lparr> findByEmail := (\<lambda>_. Inl (CollaboratorError ''users service unavailable'')) \<rparr>"

definition store_down :: exn where
  "store_down = CollaboratorError ''document store unavailable''"

definition save_down_env :: penv where
  "save_down_env =
     teams_down_env \<lparr> dbError := (\<lambda>c. case c of Save _ \<Rightarrow> Some store_down | FindById _ \<Rightarrow> None) \<rparr>"

definition find_down_env :: penv where
  "find_down_env =
     teams_down_env \<lparr> dbError := (\<lambda>c. case c of Save _ \<Rightarrow> None | FindById _ \<Rightarrow> Some store_down) \<rparr>"

definition status_dto :: updateProjectDto where
  "status_dto = members_dto \<lparr> upd_members := None \<rparr>"

definition foreign_project :: pstate where
  "foreign_project = \<lparr> projects = [''p1'' \<mapsto> roadmap \<lparr> createdBy := ''u9'' \<rparr>], console = [] \<rparr>"

definition bad_ids_env :: penv where
  "bad_ids_env = teams_down_env \<lparr> objectId := (\<lambda>s. Inl (BSONError s)) \<rparr>"

section \<open>HTTP boundary of the authentication subsystem: \<open>AuthController\<close>, \<open>GoogleStrategy\<close>\<close>

text \<open>
  What a handler does to the response: the cookies it sets with \<open>res.cookie\<close> (name and
  value, in order; a value that is \<open>undefined\<close> is \<open>None\<close>; the cookie options are
  constants and left out), the cookies it clears, and the reply it ends with.
\<close>

datatype reply =
    Json_success
  | Json_requires2FA "string option"
  | Redirect string

record response =
  set_cookies :: "(string \<times> string option) list"
  cleared_cookies :: "string list"
  reply :: reply

text \<open>An access token and a refresh token, as \<open>AuthService\<close> hands them to the controller.\<close>

record token_pair =
  pair_accessToken :: string
  pair_refreshToken :: string

text \<open>
  The object \<open>AuthService.login\<close> resolves to, as the controller inspects it: the keys
  \<open>requires2FA\<close>, \<open>tempToken\<close>, \<open>accessToken\<close> and \<open>refreshToken\<close>, each present or not.
\<close>

record login_result =
  lr_requires2FA :: "bool option"
  lr_tempToken :: "string option"
  lr_accessToken :: "string option"
  lr_refreshToken :: "string option"

text \<open>
  \<open>AuthController.login\<close> (lines 159-192). \<open>AuthService.login\<close> is the parameter
  \<open>service_login\<close>, a function on the service's state \<open>'s\<close> that may throw.
\<close>

definition AuthController_login ::
  "(string \<Rightarrow> string \<Rightarrow> string option \<Rightarrow> string option \<Rightarrow> 's \<Rightarrow> (exn + login_result) \<times> 's)
     \<Rightarrow> string \<Rightarrow> string \<Rightarrow> 'u request \<Rightarrow> 's \<Rightarrow> (exn + response) \<times> 's" where
  "AuthController_login service_login emailAddress password req st =
     (case service_login emailAddress password (ip req) (userAgent req) st of
        (Inl e, st1) \<Rightarrow> (Inl e, st1)
      | (Inr result, st1) \<Rightarrow>
          if lr_requires2FA result = Some True
          then (Inr \<lparr> set_cookies = [], cleared_cookies = [],
                      reply = Json_requires2FA (lr_tempToken result) \<rparr>, st1)
          else (Inr \<lparr> set_cookies =
                        (case lr_accessToken result of
                           None \<Rightarrow> []
                         | Some a \<Rightarrow> [(''accessToken'', Some a),
                                      (''refreshToken'', lr_refreshToken result)]),
                      cleared_cookies = [], reply = Json_success \<rparr>, st1))"

text \<open>
  \<open>AuthController.refreshToken\<close> (lines 232-258). Of the object
  \<open>AuthService.refreshAccessToken\<close> resolves to, only \<open>accessToken\<close> is read, and only
  the \<open>accessToken\<close> cookie is set.
\<close>

definition AuthController_refreshToken ::
  "(string \<Rightarrow> string option \<Rightarrow> string option \<Rightarrow> 's \<Rightarrow> (exn + login_result) \<times> 's)
     \<Rightarrow> 'u request \<Rightarrow> 's \<Rightarrow> (exn + response) \<times> 's" where
  "AuthController_refreshToken service_refresh req st =
     (case map_of (cookies req) ''refreshToken'' of
        None \<Rightarrow> (Inl (BadRequestException ''Refresh token not found''), st)
      | Some rt \<Rightarrow>
          if rt = [] then (Inl (BadRequestException ''Refresh token not found''), st)
          else
            (case service_refresh rt (ip req) (userAgent req) st of
               (Inl e, st1) \<Rightarrow> (Inl e, st1)
             | (Inr result, st1) \<Rightarrow>
                 (Inr \<lparr> set_cookies = [(''accessToken'', lr_accessToken result)],
                        cleared_cookies = [], reply = Json_success \<rparr>, st1)))"

text \<open>
  \<open>AuthController.logout\<close> (lines 263-279), which runs behind \<open>JwtAuthGuard\<close>, so
  \<open>req.user\<close> is the principal \<open>validate\<close> returned. Both tokens are read from the
  cookies only; \<open>AuthService.logout\<close> is called when one of them is truthy.
\<close>

definition AuthController_logout ::
  "(string option \<Rightarrow> string option \<Rightarrow> string \<Rightarrow> 's \<Rightarrow> (exn + unit) \<times> 's)
     \<Rightarrow> principal request \<Rightarrow> 's \<Rightarrow> (exn + response) \<times> 's" where
  "AuthController_logout service_logout req st =
     (let accessToken = map_of (cookies req) ''accessToken'';
          refreshToken = map_of (cookies req) ''refreshToken'';
          userId = principal_sub (user req);
          done = (Inr \<lparr> set_cookies = [], cleared_cookies = [''accessToken'', ''refreshToken''],
                         reply = Json_success \<rparr>)
      in if truthy accessToken \<or> truthy refreshToken
         then (case service_logout accessToken refreshToken userId st of
                 (Inl e, st1) \<Rightarrow> (Inl e, st1)
               | (Inr _, st1) \<Rightarrow> (done, st1))
         else (done, st))"

text \<open>
  The Google OAuth flow. \<open>validateOAuthLogin\<close> is a parameter, and every invocation is
  recorded with its arguments in a call log carried beside the service's state.
\<close>

type_synonym ('p, 's) oauth_login =
  "'p \<Rightarrow> string option \<Rightarrow> string option \<Rightarrow> 's \<Rightarrow> (exn + token_pair) \<times> 's"

type_synonym 'p oauth_call = "'p \<times> string option \<times> string option"

definition invoke ::
  "('p, 's) oauth_login \<Rightarrow> 'p \<Rightarrow> string option \<Rightarrow> string option \<Rightarrow> 's \<times> 'p oauth_call list
     \<Rightarrow> (exn + token_pair) \<times> 's \<times> 'p oauth_call list" where
  "invoke validateOAuthLogin profile ipAddress agent sl =
     (case validateOAuthLogin profile ipAddress agent (fst sl) of
        (r, st1) \<Rightarrow> (r, st1, snd sl @ [(profile, ipAddress, agent)]))"

text \<open>
  \<open>GoogleStrategy.validate\<close> (lines 349-353): calls \<open>validateOAuthLogin(profile)\<close> with no
  further argument, drops its result, and passes the raw profile on as \<open>req.user\<close>.
\<close>

definition GoogleStrategy_validate ::
  "('p, 's) oauth_login \<Rightarrow> 'p \<Rightarrow> 's \<times> 'p oauth_call list
     \<Rightarrow> (exn + 'p) \<times> 's \<times> 'p oauth_call list" where
  "GoogleStrategy_validate validateOAuthLogin profile sl =
     (case invoke validateOAuthLogin profile None None sl of
        (Inl e, sl1) \<Rightarrow> (Inl e, sl1)
      | (Inr _, sl1) \<Rightarrow> (Inr profile, sl1))"

text \<open>
  \<open>AuthController.googleAuthRedirect\<close> (lines 86-117): calls \<open>validateOAuthLogin\<close> on
  \<open>req.user\<close> with the address and the user agent, sets both cookies and redirects to the
  dashboard of \<open>process.env.FRONTEND_URL || 'http://localhost:3001'\<close>.
\<close>

definition googleAuthRedirect ::
  "('p, 's) oauth_login \<Rightarrow> string option \<Rightarrow> 'p request \<Rightarrow> 's \<times> 'p oauth_call list
     \<Rightarrow> (exn + response) \<times> 's \<times> 'p oauth_call list" where
  "googleAuthRedirect validateOAuthLogin frontendUrlEnv req sl =
     (case invoke validateOAuthLogin (user req) (ip req) (userAgent req) sl of
        (Inl e, sl1) \<Rightarrow> (Inl e, sl1)
      | (Inr tokens, sl1) \<Rightarrow>
          (Inr \<lparr> set_cookies = [(''accessToken'', Some (pair_accessToken tokens)),
                                 (''refreshToken'', Some (pair_refreshToken tokens))],
                 cleared_cookies = [],
                 reply = Redirect
                   ((case js_or frontendUrlEnv (Some ''http://localhost:3001'') of
                       Some url \<Rightarrow> url | None \<Rightarrow> ''http://localhost:3001'') @ ''/dashboard'') \<rparr>,
           sl1))"

text \<open>
  A Google login through \<open>GET /auth/google/redirect\<close>: the guard \<open>AuthGuard('google')\<close>
  runs the strategy's \<open>validate\<close> on the provider's profile and attaches what it passes
  on to \<open>req.user\<close>; then the handler runs.
\<close>

definition google_login_flow ::
  "('p, 's) oauth_login \<Rightarrow> string option \<Rightarrow> 'p \<Rightarrow> 'u request \<Rightarrow> 's \<times> 'p oauth_call list
     \<Rightarrow> (exn + response) \<times> 's \<times> 'p oauth_call list" where
  "google_login_flow validateOAuthLogin frontendUrlEnv profile req sl =
     (case GoogleStrategy_validate validateOAuthLogin profile sl of
        (Inl e, sl1) \<Rightarrow> (Inl e, sl1)
      | (Inr passed, sl1) \<Rightarrow>
          googleAuthRedirect validateOAuthLogin frontendUrlEnv
            \<lparr> cookies = cookies req, authorization = authorization req, ip = ip req,
              userAgent = userAgent req, user = passed \<rparr> sl1)"

text \<open>The number of identities linked to the OAuth pair \<open>k\<close> of provider and subject.\<close>

definition identities_for :: "string \<times> string \<Rightarrow> user list \<Rightarrow> nat" where
  "identities_for k us = length (filter (\<lambda>u. oauthLink u = Some k) us)"

subsection \<open>The OAuth login of the specification\<close>

text \<open>The profile the OAuth collaborator supplies: provider, subject, email and name.\<close>

record oauth_profile =
  op_provider :: string
  op_subject :: string
  op_email :: string
  op_name :: string

text \<open>
  The Token Issuer's \<open>issue(identity, provider)\<close>, which only signs, and the id the
  Credential Store gives a new identity.
\<close>

record oauth_env =
  issueTokens :: "user \<Rightarrow> string \<Rightarrow> token_pair"
  freshUserId :: "user list \<Rightarrow> string"

text \<open>
  Modelled from the spec: \<open>AuthService.validateOAuthLogin\<close> is not among the sources.
  Section 4.2: it looks up or creates an Identity keyed by (provider, subject); if an
  Identity with the same verified email exists under a different provider, it links the
  OAuth identity to it rather than creating a duplicate; it always succeeds and issues a
  TokenPair. The state is the Credential Store's list of identities.
\<close>

definition validateOAuthLogin ::
  "oauth_env \<Rightarrow> oauth_profile \<Rightarrow> string option \<Rightarrow> string option \<Rightarrow> user list
     \<Rightarrow> (exn + token_pair) \<times> user list" where
  "validateOAuthLogin env profile ipAddress agent ids =
     (let k = (op_provider profile, op_subject profile) in
      case find (\<lambda>u. oauthLink u = Some k) ids of
        Some u \<Rightarrow> (Inr (issueTokens env u (op_provider profile)), ids)
      | None \<Rightarrow>
          (case find (\<lambda>u. user_email u = op_email profile \<and> emailVerified u) ids of
             Some u \<Rightarrow>
               (let linked = u \<lparr> oauthLink := Some k \<rparr>
                in (Inr (issueTokens env linked (op_provider profile)),
                    map (\<lambda>v. if user_id v = user_id u then linked else v) ids))
           | None \<Rightarrow>
               (let created =
                      \<lparr> user_id = freshUserId env ids, user_email = op_email profile,
                        passwordHash = None, oauthLink = Some k, twoFactorEnabled = False,
                        failedLoginAttempts = 0, lockoutUntil = None,
                        lastPasswordChange = None, emailVerified = True \<rparr>
                in (Inr (issueTokens env created (op_provider profile)), ids @ [created]))))"

subsection \<open>Example OAuth data\<close>

definition demo_oauth_env :: oauth_env where
  "demo_oauth_env =
     \<lparr> issueTokens = (\<lambda>u p. \<lparr> pair_accessToken = ''access:'' @ user_id u,
                               pair_refreshToken = ''refresh:'' @ user_id u \<rparr>),
       freshUserId = (\<lambda>ids. ''g'' @ replicate (length ids) (CHR ''1'')) \<rparr>"

definition google_profile :: oauth_profile where
  "google_profile = \<lparr> op_provider = ''google'', op_subject = ''108'', op_email = ''b@x.com'',
                      op_name = ''Bea'' \<rparr>"

definition bea :: user where
  "bea = \<lparr> user_id = ''g'', user_email = ''b@x.com'', passwordHash = None,
           oauthLink = Some (''google'', ''108''), twoFactorEnabled = False,
           failedLoginAttempts = 0, lockoutUntil = None, lastPasswordChange = None,
           emailVerified = True \<rparr>"

definition callback_request :: "unit request" where
  "callback_request = \<lparr> cookies = [], authorization = None, ip = Some ''10.0.0.7'',
                        userAgent = Some ''Mozilla'', user = () \<rparr>"

section \<open>Revocation registry and token rotation of the specification\<close>

text \<open>
  What a signed token carries (data model of the specification): the subject, the token's
  identifier, the token family of the login it descends from, its natural expiry, and
  whether it is a refresh token.
\<close>

record claims =
  c_sub :: string
  c_id :: nat
  c_family :: nat
  c_expiry :: int
  c_refresh :: bool

text \<open>
  The state behind the Revocation Registry and the rotation of refresh tokens: the revoked
  token identifiers with their natural expiries, the revoked families, the identifiers
  of the refresh tokens that have been rotated, and the next unused token identifier.
\<close>

record session_state =
  revoked :: "(nat \<times> int) list"
  revokedFamilies :: "nat list"
  rotated :: "nat list"
  minted :: nat

text \<open>
  Modelled from the spec: the Revocation Registry (\<open>TokenBlacklistService\<close>) is not among
  the sources. Section 4.4: \<open>revoke(tokenId, naturalExpiry)\<close> adds an entry; revoking an
  already expired token is a no-op.
\<close>

definition revoke :: "nat \<Rightarrow> int \<Rightarrow> int \<Rightarrow> session_state \<Rightarrow> session_state" where
  "revoke tokenId naturalExpiry now st =
     (if naturalExpiry \<le> now then st
      else st \<lparr> revoked := (tokenId, naturalExpiry) # revoked st \<rparr>)"

text \<open>
  Modelled from the spec: the registry's \<open>revokeFamily(familyId)\<close> (section 4.4), not
  among the sources.
\<close>

definition revokeFamily :: "nat \<Rightarrow> session_state \<Rightarrow> session_state" where
  "revokeFamily familyId st = st \<lparr> revokedFamilies := familyId # revokedFamilies st \<rparr>"

text \<open>
  Modelled from the spec: the registry's \<open>isRevoked(tokenId)\<close> (section 4.4), not among
  the sources. It holds for a token that was revoked itself or whose family was: a replay
  must fail all of the family's descendants (section 4.1).
\<close>

definition isRevoked :: "session_state \<Rightarrow> claims \<Rightarrow> bool" where
  "isRevoked st c =
     (c_id c \<in> fst ` set (revoked st) \<or> c_family c \<in> set (revokedFamilies st))"

text \<open>
  Modelled from the spec: \<open>TokenBlacklistService.isTokenBlacklisted\<close>, the lookup
  \<open>validate\<close> calls with the raw token. \<open>decode\<close> verifies a bearer string and gives its
  claims, or nothing for a string that is not a token of this server.
\<close>

definition TokenBlacklistService_isTokenBlacklisted ::
  "(string \<Rightarrow> claims option) \<Rightarrow> session_state \<Rightarrow> string \<Rightarrow> bool" where
  "TokenBlacklistService_isTokenBlacklisted decode st token =
     (case decode token of None \<Rightarrow> False | Some c \<Rightarrow> isRevoked st c)"

text \<open>
  Modelled from the spec: revoking the token behind a bearer string, if one is given and
  it is a token of this server, with its natural expiry (the step \<open>AuthService.logout\<close>,
  not among the sources, takes for each of its two tokens).
\<close>

definition revoke_token ::
  "(string \<Rightarrow> claims option) \<Rightarrow> int \<Rightarrow> string option \<Rightarrow> session_state \<Rightarrow> session_state" where
  "revoke_token decode now token st =
     (case token of
        None \<Rightarrow> st
      | Some t \<Rightarrow> (case decode t of None \<Rightarrow> st | Some c \<Rightarrow> revoke (c_id c) (c_expiry c) now st))"

text \<open>
  Modelled from the spec: \<open>AuthService.logout\<close> is not among the sources. Section 4.2:
  it adds both tokens' identifiers to the Revocation Registry with their natural expiries,
  and repeating it is not an error.
\<close>

definition logout ::
  "(string \<Rightarrow> claims option) \<Rightarrow> int \<Rightarrow> string option \<Rightarrow> string option \<Rightarrow> string
     \<Rightarrow> session_state \<Rightarrow> (exn + unit) \<times> session_state" where
  "logout decode now accessToken refreshToken userId st =
     (Inr (), revoke_token decode now refreshToken (revoke_token decode now accessToken st))"

text \<open>The configuration structure of the specification (section 9).\<close>

record config =
  accessTtl :: int
  refreshTtl :: int
  challengeTtl :: int
  lockoutThreshold :: nat
  lockoutWindow :: int
  totpSkewSteps :: nat

text \<open>
  Modelled from the spec: the Token Issuer's \<open>rotate\<close> is not among the sources.
  Sections 3 and 4.1: the pair it mints carries the subject and the token family of the
  refresh token it replaces, fresh token identifiers, and the expiries the configured
  lifetimes give; \<open>sign\<close> turns the claims into the bearer string. These are the
  claims of the access token of the pair.
\<close>

definition minted_access :: "config \<Rightarrow> int \<Rightarrow> claims \<Rightarrow> session_state \<Rightarrow> claims" where
  "minted_access cfg now c st =
     \<lparr> c_sub = c_sub c, c_id = minted st, c_family = c_family c,
       c_expiry = now + accessTtl cfg, c_refresh = False \<rparr>"

text \<open>
  Modelled from the spec: the claims of the refresh token of the pair \<open>rotate\<close> mints,
  of the same subject and family, with the next identifier and the refresh lifetime.
\<close>

definition minted_refresh :: "config \<Rightarrow> int \<Rightarrow> claims \<Rightarrow> session_state \<Rightarrow> claims" where
  "minted_refresh cfg now c st =
     \<lparr> c_sub = c_sub c, c_id = Suc (minted st), c_family = c_family c,
       c_expiry = now + refreshTtl cfg, c_refresh = True \<rparr>"

text \<open>
  Modelled from the spec: \<open>rotate\<close> (section 4.1), which signs the two sets of claims,
  marks the old refresh token rotated and takes the two identifiers it has used.
\<close>

definition rotate ::
  "config \<Rightarrow> (claims \<Rightarrow> string) \<Rightarrow> int \<Rightarrow> claims \<Rightarrow> session_state
     \<Rightarrow> token_pair \<times> session_state" where
  "rotate cfg sign now c st =
     (\<lparr> pair_accessToken = sign (minted_access cfg now c st),
        pair_refreshToken = sign (minted_refresh cfg now c st) \<rparr>,
      st \<lparr> rotated := c_id c # rotated st, minted := minted st + 2 \<rparr>)"

text \<open>
  Modelled from the spec: \<open>AuthService.refreshAccessToken\<close> is not among the sources.
  Sections 4.1, 4.2, 7 and 8: a string that is not a refresh token of this server fails with
  \<open>InvalidOrExpiredToken\<close>; the use of a refresh token that has already been rotated is
  a replay, whatever else has happened to the token since: it revokes the whole family
  and fails with \<open>TokenReplayDetected\<close>; a token that was never rotated and is expired
  or revoked fails with \<open>InvalidOrExpiredToken\<close>; otherwise the call delegates to
  \<open>rotate\<close> and returns the new pair.
\<close>

definition refreshAccessToken ::
  "config \<Rightarrow> (string \<Rightarrow> claims option) \<Rightarrow> (claims \<Rightarrow> string) \<Rightarrow> int
     \<Rightarrow> string \<Rightarrow> string option \<Rightarrow> string option \<Rightarrow> session_state
     \<Rightarrow> (exn + login_result) \<times> session_state" where
  "refreshAccessToken cfg decode sign now token ipAddress agent st =
     (case decode token of
        None \<Rightarrow> (Inl InvalidOrExpiredToken, st)
      | Some c \<Rightarrow>
          if \<not> c_refresh c then (Inl InvalidOrExpiredToken, st)
          else if c_id c \<in> set (rotated st)
          then (Inl TokenReplayDetected, revokeFamily (c_family c) st)
          else if c_expiry c \<le> now \<or> isRevoked st c then (Inl InvalidOrExpiredToken, st)
          else (case rotate cfg sign now c st of
                  (tokens, st1) \<Rightarrow>
                    (Inr \<lparr> lr_requires2FA = None, lr_tempToken = None,
                           lr_accessToken = Some (pair_accessToken tokens),
                           lr_refreshToken = Some (pair_refreshToken tokens) \<rparr>, st1)))"

text \<open>
  The calls that change the session state, with the time at which each is made, and the
  state after a sequence of them.
\<close>

datatype session_op =
    Refresh string int
  | Logout "string option" "string option" string int

definition apply_op ::
  "config \<Rightarrow> (string \<Rightarrow> claims option) \<Rightarrow> (claims \<Rightarrow> string) \<Rightarrow> session_op
     \<Rightarrow> session_state \<Rightarrow> session_state" where
  "apply_op cfg decode sign op st =
     (case op of
        Refresh token now \<Rightarrow> snd (refreshAccessToken cfg decode sign now token None None st)
      | Logout accessToken refreshToken userId now \<Rightarrow>
          snd (logout decode now accessToken refreshToken userId st))"

fun run_ops ::
  "config \<Rightarrow> (string \<Rightarrow> claims option) \<Rightarrow> (claims \<Rightarrow> string) \<Rightarrow> session_op list
     \<Rightarrow> session_state \<Rightarrow> session_state" where
  "run_ops cfg decode sign [] st = st"
| "run_ops cfg decode sign (op # ops) st =
     run_ops cfg decode sign ops (apply_op cfg decode sign op st)"

subsection \<open>Example tokens\<close>

text \<open>
  The access token \<open>tokA\<close> and the refresh token \<open>tokR\<close> of one login of \<open>alice\<close>
  (family 7), the pair \<open>tokA2\<close>, \<open>tokR2\<close> minted by rotating \<open>tokR\<close> at time
  60000 under \<open>demo_config\<close>, the signing that gives these four strings for their
  claims, and a registry with nothing in it.
\<close>

definition demo_config :: config where
  "demo_config = \<lparr> accessTtl = 900000, refreshTtl = 2592000000, challengeTtl = 300000,
                   lockoutThreshold = 3, lockoutWindow = 900000, totpSkewSteps = 1 \<rparr>"

definition demo_decode :: "string \<Rightarrow> claims option" where
  "demo_decode =
     map_of
       [(''tokA'', \<lparr> c_sub = ''u1'', c_id = 11, c_family = 7, c_expiry = 900000, c_refresh = False \<rparr>),
        (''tokR'', \<lparr> c_sub = ''u1'', c_id = 12, c_family = 7, c_expiry = 2592000000, c_refresh = True \<rparr>),
        (''tokA2'', \<lparr> c_sub = ''u1'', c_id = 13, c_family = 7, c_expiry = 960000, c_refresh = False \<rparr>),
        (''tokR2'', \<lparr> c_sub = ''u1'', c_id = 14, c_family = 7, c_expiry = 2592060000, c_refresh = True \<rparr>)]"

definition demo_sign :: "claims \<Rightarrow> string" where
  "demo_sign c =
     (case filter (\<lambda>t. demo_decode t = Some c) [''tokA'', ''tokR'', ''tokA2'', ''tokR2''] of
        [] \<Rightarrow> []
      | t # _ \<Rightarrow> t)"

definition no_sessions :: session_state where
  "no_sessions = \<lparr> revoked = [], revokedFamilies = [], rotated = [], minted = 0 \<rparr>"

text \<open>
  Logout requests of \<open>alice\<close>, behind the guard: one carrying both tokens in cookies, one
  carrying the access token in the \<open>Authorization\<close> header and no cookie.
\<close>

definition alice_principal :: principal where
  "alice_principal = principal_of (alice_payload 200)"

definition cookie_logout_request :: "principal request" where
  "cookie_logout_request =
     \<lparr> cookies = [(''accessToken'', ''tokA''), (''refreshToken'', ''tokR'')],
       authorization = None, ip = None, userAgent = None, user = alice_principal \<rparr>"

definition header_logout_request :: "principal request" where
  "header_logout_request =
     \<lparr> cookies = [], authorization = Some ''Bearer tokA'', ip = None, userAgent = None,
       user = alice_principal \<rparr>"

definition logged_out :: response where
  "logged_out = \<lparr> set_cookies = [], cleared_cookies = [''accessToken'', ''refreshToken''],
                  reply = Json_success \<rparr>"

text \<open>
  A refresh request carrying a token in the cookie, the state after the login that issued
  \<open>tokA\<close> and \<open>tokR\<close> (identifiers 11 and 12), the state after \<open>tokR\<close> has
  then been rotated once, and the claims of \<open>tokR\<close>.
\<close>

definition refresh_request :: "string \<Rightarrow> unit request" where
  "refresh_request t = \<lparr> cookies = [(''refreshToken'', t)], authorization = None, ip = None,
                         userAgent = None, user = () \<rparr>"

definition after_login :: session_state where
  "after_login = \<lparr> revoked = [], revokedFamilies = [], rotated = [], minted = 13 \<rparr>"

definition rotated_once :: session_state where
  "rotated_once = \<lparr> revoked = [], revokedFamilies = [], rotated = [12], minted = 15 \<rparr>"

definition tokR_claims :: claims where
  "tokR_claims = \<lparr> c_sub = ''u1'', c_id = 12, c_family = 7, c_expiry = 2592000000,
                   c_refresh = True \<rparr>"

section \<open>Login policy engine of the specification\<close>

text \<open>
  The primitives the engine is given: the password hashing primitive's
  \<open>verify(plain, digest)\<close>, and the Token Issuer's \<open>issue\<close> and \<open>issueChallenge\<close>,
  which only sign.
\<close>

record login_env =
  verifyPassword :: "string \<Rightarrow> string \<Rightarrow> bool"
  issuePair :: "user \<Rightarrow> token_pair"
  issueChallenge :: "user \<Rightarrow> string"

text \<open>
  Modelled from the spec: the Credential Store's \<open>findByEmail\<close> (section 6); the users
  service is not among the sources. The store is a list of identities, and the lookup gives
  the first identity with the email.
\<close>

definition find_by_email :: "user list \<Rightarrow> string \<Rightarrow> user option" where
  "find_by_email ids e = find (\<lambda>u. user_email u = e) ids"

text \<open>
  Modelled from the spec: the Credential Store's \<open>save(identity)\<close> (section 6), which
  replaces the identity with the same id.
\<close>

definition save_identity :: "user \<Rightarrow> user list \<Rightarrow> user list" where
  "save_identity u ids = map (\<lambda>v. if user_id v = user_id u then u else v) ids"

text \<open>
  Modelled from the spec: \<open>AuthService.login\<close> is not among the sources. Sections 3 and
  4.2: the call fails with \<open>InvalidCredentials\<close> if the identity is absent or the hash
  does not match, and the counter increments on a mismatch; it fails with
  \<open>AccountLocked\<close> if lockout-until is in the future, without consuming a counter
  increment and whatever the password is; once the count reaches the configured threshold
  lockout-until is set to now plus the window; on the first attempt after that instant the
  counter is reset; on a match, an identity with 2FA enabled gets a challenge token and no
  access or refresh token, any other gets its counter reset to zero and a token pair.
\<close>

definition login ::
  "config \<Rightarrow> login_env \<Rightarrow> int \<Rightarrow> string \<Rightarrow> string \<Rightarrow> string option \<Rightarrow> string option
     \<Rightarrow> user list \<Rightarrow> (exn + login_result) \<times> user list" where
  "login cfg env now emailAddress password ipAddress agent ids =
     (case find_by_email ids emailAddress of
        None \<Rightarrow> (Inl InvalidCredentials, ids)
      | Some u \<Rightarrow>
          if (case lockoutUntil u of None \<Rightarrow> False | Some until \<Rightarrow> now < until)
          then (Inl AccountLocked, ids)
          else
            (let u0 = (case lockoutUntil u of
                         None \<Rightarrow> u
                       | Some _ \<Rightarrow> u \<lparr> failedLoginAttempts := 0, lockoutUntil := None \<rparr>)
             in if \<not> (case passwordHash u0 of
                         None \<Rightarrow> False
                       | Some digest \<Rightarrow> verifyPassword env password digest)
                then (let n = Suc (failedLoginAttempts u0)
                      in (Inl InvalidCredentials,
                          save_identity
                            (u0 \<lparr> failedLoginAttempts := n,
                                  lockoutUntil := (if lockoutThreshold cfg \<le> n
                                                   then Some (now + lockoutWindow cfg)
                                                   else None) \<rparr>) ids))
                else if twoFactorEnabled u0
                then (Inr \<lparr> lr_requires2FA = Some True,
                            lr_tempToken = Some (issueChallenge env u0),
                            lr_accessToken = None, lr_refreshToken = None \<rparr>,
                      save_identity u0 ids)
                else (Inr \<lparr> lr_requires2FA = None, lr_tempToken = None,
                            lr_accessToken = Some (pair_accessToken (issuePair env u0)),
                            lr_refreshToken = Some (pair_refreshToken (issuePair env u0)) \<rparr>,
                      save_identity (u0 \<lparr> failedLoginAttempts := 0 \<rparr>) ids)))"

text \<open>
  A run of login attempts on one email, each with its time and password; the results are
  collected in order.
\<close>

fun login_attempts ::
  "config \<Rightarrow> login_env \<Rightarrow> string \<Rightarrow> (int \<times> string) list \<Rightarrow> user list
     \<Rightarrow> (exn + login_result) list \<times> user list" where
  "login_attempts cfg env e [] ids = ([], ids)"
| "login_attempts cfg env e (a # rest) ids =
     (case login cfg env (fst a) e (snd a) None None ids of
        (r, ids1) \<Rightarrow>
          (case login_attempts cfg env e rest ids1 of (rs, ids2) \<Rightarrow> (r # rs, ids2)))"

subsection \<open>Example login data\<close>

text \<open>
  With the threshold of three failures and the window of fifteen minutes of
  \<open>demo_config\<close>: a hashing primitive that
  accepts \<open>p1\<close> for the digest \<open>h(p1)\<close>; an identity with 2FA enabled.
\<close>

definition demo_login_env :: login_env where
  "demo_login_env =
     \<lparr> verifyPassword = (\<lambda>plain digest. digest = ''h('' @ plain @ '')''),
       issuePair = (\<lambda>u. \<lparr> pair_accessToken = ''access:'' @ user_id u,
                           pair_refreshToken = ''refresh:'' @ user_id u \<rparr>),
       issueChallenge = (\<lambda>u. ''challenge:'' @ user_id u) \<rparr>"

definition alice_2fa :: user where
  "alice_2fa = alice \<lparr> twoFactorEnabled := True \<rparr>"

definition login_request :: "unit request" where
  "login_request = \<lparr> cookies = [], authorization = None, ip = None, userAgent = None,
                     user = () \<rparr>"

text \<open>
  The identity after two failed attempts, three attempts with wrong passwords, and the
  identity they leave locked until 903 seconds.
\<close>

definition alice_two_failures :: user where
  "alice_two_failures = alice \<lparr> failedLoginAttempts := 2 \<rparr>"

definition three_wrong_tries :: "(int \<times> string) list" where
  "three_wrong_tries = [(1000, ''guess1''), (2000, ''guess2''), (3000, ''guess3'')]"

definition alice_locked :: user where
  "alice_locked = alice \<lparr> failedLoginAttempts := 3, lockoutUntil := Some 903000 \<rparr>"

section \<open>Properties of the session validator\<close>


lemma validate_unfold:
  "validate isBl findById now req pl =
     (if token_revoked isBl req then Inl TokenRevoked
      else case findById (sub pl) of
          None \<Rightarrow> Inl IdentityNotFound
        | Some u \<Rightarrow>
            if stale_by_seconds u pl then Inl StaleCredentials
            else if locked_out u now then Inl AccountLocked
            else Inr (principal_of pl))"
  unfolding validate_def token_revoked_def stale_by_seconds_def locked_out_def principal_of_def
    TokenRevoked_def IdentityNotFound_def StaleCredentials_def AccountLocked_def truthy_def Let_def
  by (auto split: option.splits)

lemma reasons_distinct:
  "TokenRevoked \<noteq> IdentityNotFound" "TokenRevoked \<noteq> StaleCredentials"
  "TokenRevoked \<noteq> AccountLocked" "IdentityNotFound \<noteq> StaleCredentials"
  "IdentityNotFound \<noteq> AccountLocked" "StaleCredentials \<noteq> AccountLocked"
  "IdentityNotFound \<noteq> TokenRevoked" "StaleCredentials \<noteq> TokenRevoked"
  "AccountLocked \<noteq> TokenRevoked" "StaleCredentials \<noteq> IdentityNotFound"
  "AccountLocked \<noteq> IdentityNotFound" "AccountLocked \<noteq> StaleCredentials"
  by (simp_all add: TokenRevoked_def IdentityNotFound_def StaleCredentials_def AccountLocked_def)

lemma example_checks:
  "token_revoked (List.member [''tokA'']) (cookie_request ''tokA'')"
  "\<not> token_revoked (List.member []) (cookie_request ''tokA'')"
  "\<not> token_revoked (List.member [''tokA'']) (bearer_request ''tokB'')"
  "stale_by_seconds alice (alice_payload 99)"
  "\<not> stale_by_seconds alice (alice_payload 100)"
  "\<not> stale_by_seconds locked_alice (alice_payload 200)"
  "locked_out locked_alice 4999"
  "\<not> locked_out locked_alice 5000"
  "\<not> locked_out alice 0"
  "sub (alice_payload i) = ''u1''"
  by (simp_all add: token_revoked_def request_token_def js_or_def truthy_def cookie_request_def
      bearer_request_def stale_by_seconds_def locked_out_def alice_def locked_alice_def
      alice_payload_def)

lemma validate_range:
  "validate isBl findById now req pl \<in>
     {Inl TokenRevoked, Inl IdentityNotFound, Inl StaleCredentials, Inl AccountLocked,
      Inr (principal_of pl)}"
  by (simp add: validate_unfold split: option.splits)




lemma authenticate_presented:
  assumes "presents req t"
  shows "authenticate verify isBl findById now req =
           (case verify t of
              None \<Rightarrow> Inl PassportUnauthorized
            | Some pl \<Rightarrow> validate isBl findById now req pl)"
  using assms by (simp add: authenticate_def presents_def)


lemma presented_token_revoked:
  assumes "reads_presented_token req" and "presents req t"
  shows "token_revoked isBl req = isBl t"
  using assms by (auto simp: reads_presented_token_def presents_def token_revoked_def)

lemma example_requests:
  "presents (cookie_request ''tokA'') ''tokA''"
  "presents (bearer_request ''tokA'') ''tokA''"
  "presents (lowercase_bearer_request ''tokA'') ''tokA''"
  "presents (spaced_bearer_request ''tokA'') ''tokA''"
  "request_token (cookie_request ''tokA'') = Some ''tokA''"
  "request_token (bearer_request ''tokA'') = Some ''tokA''"
  "request_token (lowercase_bearer_request ''tokA'') = Some ''bearer tokA''"
  "request_token (spaced_bearer_request ''tokA'') = Some '' tokA''"
  by (simp_all add: presents_def jwtFromRequest_def request_token_def js_or_def truthy_def
      fromAuthHeaderAsBearerToken_def parseAuthHeader_def lower_char_def is_space_def
      cookie_request_def bearer_request_def lowercase_bearer_request_def
      spaced_bearer_request_def)

text \<open>
  C1, evaluated on the code. The token \<open>tokA\<close> is in the blacklist, its signature and
  expiry verify, and its identity exists and is not locked. Presented in the cookie or as
  \<open>Authorization: Bearer tokA\<close> it is rejected with \<open>TokenRevoked\<close>. Presented as
  \<open>Authorization: bearer tokA\<close>, or with two spaces after the scheme, the extractor
  still takes \<open>tokA\<close> from the header, but line 43 of \<open>validate\<close> asks the blacklist about
  \<open>bearer tokA\<close> (or about \<open>tokA\<close> with a leading space), which is not in it, and the
  principal is returned.
\<close>

theorem blacklisted_token_validates_by_scheme_spelling:
  "List.member [''tokA''] ''tokA''
   \<and> presents (lowercase_bearer_request ''tokA'') ''tokA''
   \<and> request_token (lowercase_bearer_request ''tokA'') = Some ''bearer tokA''
   \<and> authenticate demo_verify (List.member [''tokA'']) (map_of [(''u1'', alice)]) 0
        (lowercase_bearer_request ''tokA'') = Inr (principal_of (alice_payload 200))
   \<and> validate (List.member [''tokA'']) (map_of [(''u1'', alice)]) 0
        (lowercase_bearer_request ''tokA'') (alice_payload 200) =
        Inr (principal_of (alice_payload 200))
   \<and> presents (spaced_bearer_request ''tokA'') ''tokA''
   \<and> request_token (spaced_bearer_request ''tokA'') = Some '' tokA''
   \<and> authenticate demo_verify (List.member [''tokA'']) (map_of [(''u1'', alice)]) 0
        (spaced_bearer_request ''tokA'') = Inr (principal_of (alice_payload 200))
   \<and> authenticate demo_verify (List.member [''tokA'']) (map_of [(''u1'', alice)]) 0
        (bearer_request ''tokA'') = Inl TokenRevoked
   \<and> authenticate demo_verify (List.member [''tokA'']) (map_of [(''u1'', alice)]) 0
        (cookie_request ''tokA'') = Inl TokenRevoked"
proof -
  have v: "demo_verify ''tokA'' = Some (alice_payload 200)" by (simp add: demo_verify_def)
  have ok: "\<not> stale_by_seconds alice (alice_payload 200)" "\<not> locked_out alice 0"
    "sub (alice_payload 200) = ''u1''"
    by (simp_all add: stale_by_seconds_def locked_out_def alice_def alice_payload_def)
  have low: "validate (List.member [''tokA'']) (map_of [(''u1'', alice)]) 0
        (lowercase_bearer_request ''tokA'') (alice_payload 200) =
        Inr (principal_of (alice_payload 200))"
    by (simp add: validate_unfold token_revoked_def example_requests ok)
  have spaced: "validate (List.member [''tokA'']) (map_of [(''u1'', alice)]) 0
        (spaced_bearer_request ''tokA'') (alice_payload 200) =
        Inr (principal_of (alice_payload 200))"
    by (simp add: validate_unfold token_revoked_def example_requests ok)
  have exact: "validate (List.member [''tokA'']) (map_of [(''u1'', alice)]) 0
        (bearer_request ''tokA'') (alice_payload 200) = Inl TokenRevoked"
    "validate (List.member [''tokA'']) (map_of [(''u1'', alice)]) 0
        (cookie_request ''tokA'') (alice_payload 200) = Inl TokenRevoked"
    by (simp_all add: validate_unfold token_revoked_def example_requests)
  show ?thesis
    using low spaced exact
    by (simp add: authenticate_presented [OF example_requests(1)]
        authenticate_presented [OF example_requests(2)]
        authenticate_presented [OF example_requests(3)]
        authenticate_presented [OF example_requests(4)] v example_requests)
qed








text \<open>
  C3 (as amended). Take an identity with a recorded password change, a request whose token
  is not revoked, and a token issued at the instant \<open>issued\<close> (in milliseconds), whose
  issued-at is the whole second of that instant. If the token was issued in an earlier
  whole second than the change, \<open>validate\<close> rejects it with \<open>StaleCredentials\<close>. If it
  was issued at or after the change, and more generally in the second of the change or
  later, \<open>validate\<close> accepts it when the account is not locked.
\<close>

theorem password_change_invalidates_by_second:
  assumes "findById (sub pl) = Some u" and "lastPasswordChange u = Some changed"
    and "\<not> token_revoked isBl req" and "iat pl = issued div 1000"
  shows "(issued div 1000 < changed div 1000 \<longrightarrow>
            validate isBl findById now req pl = Inl StaleCredentials)
       \<and> (changed \<le> issued \<and> \<not> locked_out u now \<longrightarrow>
            validate isBl findById now req pl = Inr (principal_of pl))
       \<and> (changed div 1000 \<le> issued div 1000 \<and> \<not> locked_out u now \<longrightarrow>
            validate isBl findById now req pl = Inr (principal_of pl))"
proof -
  have fl: "changed \<le> issued \<Longrightarrow> changed div 1000 \<le> issued div 1000"
    by (rule zdiv_mono1) simp_all
  have st: "stale_by_seconds u pl = (issued div 1000 < changed div 1000)"
    using assms(2,4) by (simp add: stale_by_seconds_def)
  have v: "validate isBl findById now req pl =
      (if issued div 1000 < changed div 1000 then Inl StaleCredentials
       else if locked_out u now then Inl AccountLocked else Inr (principal_of pl))"
    using assms(1,3) st by (simp add: validate_unfold)
  show ?thesis
  proof (intro conjI impI)
    assume "issued div 1000 < changed div 1000"
    then show "validate isBl findById now req pl = Inl StaleCredentials" by (simp add: v)
  next
    assume "changed \<le> issued \<and> \<not> locked_out u now"
    then show "validate isBl findById now req pl = Inr (principal_of pl)"
      using fl by (simp add: v)
  next
    assume "changed div 1000 \<le> issued div 1000 \<and> \<not> locked_out u now"
    then show "validate isBl findById now req pl = Inr (principal_of pl)" by (simp add: v)
  qed
qed

theorem password_change_invalidates_by_second_witness:
  "map_of [(''u1'', alice)] (sub (alice_payload 99)) = Some alice
   \<and> lastPasswordChange alice = Some 100500
   \<and> \<not> token_revoked (List.member [''tokA'']) (bearer_request ''tokB'')
   \<and> iat (alice_payload 99) = 99900 div 1000 \<and> (99900 :: int) div 1000 < 100500 div 1000
   \<and> validate (List.member [''tokA'']) (map_of [(''u1'', alice)]) 0 (bearer_request ''tokB'')
        (alice_payload 99) = Inl StaleCredentials
   \<and> iat (alice_payload 100) = 100700 div 1000 \<and> (100500 :: int) \<le> 100700
   \<and> \<not> locked_out alice 0
   \<and> validate (List.member [''tokA'']) (map_of [(''u1'', alice)]) 0 (bearer_request ''tokB'')
        (alice_payload 100) = Inr (principal_of (alice_payload 100))"
proof -
  have a: "map_of [(''u1'', alice)] (sub (alice_payload i)) = Some alice" for i
    by (simp add: example_checks)
  have b: "lastPasswordChange alice = Some 100500" by (simp add: alice_def)
  have c: "\<not> token_revoked (List.member [''tokA'']) (bearer_request ''tokB'')"
    by (rule example_checks)
  have d: "iat (alice_payload 99) = 99900 div 1000" "(99900 :: int) div 1000 < 100500 div 1000"
    by (simp_all add: alice_payload_def)
  have e: "iat (alice_payload 100) = 100700 div 1000" "(100500 :: int) \<le> 100700"
    "\<not> locked_out alice 0"
    by (simp_all add: alice_payload_def example_checks)
  from password_change_invalidates_by_second [where findById = "map_of [(''u1'', alice)]"
      and pl = "alice_payload 99" and u = alice and changed = 100500 and issued = 99900
      and isBl = "List.member [''tokA'']" and req = "bearer_request ''tokB''" and now = 0]
    a [of 99] b c d
  have r1: "validate (List.member [''tokA'']) (map_of [(''u1'', alice)]) 0
      (bearer_request ''tokB'') (alice_payload 99) = Inl StaleCredentials" by blast
  from password_change_invalidates_by_second [where findById = "map_of [(''u1'', alice)]"
      and pl = "alice_payload 100" and u = alice and changed = 100500 and issued = 100700
      and isBl = "List.member [''tokA'']" and req = "bearer_request ''tokB''" and now = 0]
    a [of 100] b c e
  have r2: "validate (List.member [''tokA'']) (map_of [(''u1'', alice)]) 0
      (bearer_request ''tokB'') (alice_payload 100) = Inr (principal_of (alice_payload 100))"
    by blast
  from a [of 99] b c d e r1 r2 show ?thesis by blast
qed

text \<open>
  C3 as stated fails: a token issued at 100.2 seconds, before the password change at 100.5
  seconds, carries the issued-at second 100 and is still accepted after the change.
\<close>

theorem password_change_counterexample:
  "lastPasswordChange alice = Some 100500
   \<and> (100200 :: int) < 100500
   \<and> iat (alice_payload (100200 div 1000)) = 100200 div 1000
   \<and> validate (List.member []) (map_of [(''u1'', alice)]) 100600 (bearer_request ''tokB'')
       (alice_payload (100200 div 1000)) = Inr (principal_of (alice_payload (100200 div 1000)))"
proof -
  have "\<not> token_revoked (List.member []) (bearer_request ''tokB'')"
    by (simp add: token_revoked_def split: option.splits)
  moreover have "\<not> locked_out alice 100600" by (simp add: locked_out_def alice_def)
  moreover have "\<not> stale_by_seconds alice (alice_payload (100200 div 1000))"
    by (simp add: stale_by_seconds_def alice_def alice_payload_def)
  ultimately have "validate (List.member []) (map_of [(''u1'', alice)]) 100600
      (bearer_request ''tokB'') (alice_payload (100200 div 1000)) =
        Inr (principal_of (alice_payload (100200 div 1000)))"
    by (simp add: validate_unfold example_checks)
  then show ?thesis by (simp add: alice_def alice_payload_def)
qed

text \<open>
  C9. The staleness rejection happens exactly when a last password change is recorded and
  the issued-at is below that change truncated down to whole seconds. Hence an identity
  with no recorded change never has a token rejected as stale, and a token whose issued-at
  equals the whole-second floor of the change time passes the check.
\<close>

theorem stale_check_uses_second_floor:
  "((validate isBl findById now req pl = Inl StaleCredentials) =
     (\<not> token_revoked isBl req \<and>
      (\<exists>u changed. findById (sub pl) = Some u \<and> lastPasswordChange u = Some changed
          \<and> iat pl < changed div 1000)))
   \<and> (findById (sub pl) = Some u \<and> lastPasswordChange u = None \<longrightarrow>
         validate isBl findById now req pl \<noteq> Inl StaleCredentials)
   \<and> (findById (sub pl) = Some u \<and> lastPasswordChange u = Some changed
         \<and> iat pl = changed div 1000 \<longrightarrow>
         validate isBl findById now req pl \<noteq> Inl StaleCredentials)"
  by (auto simp: validate_unfold stale_by_seconds_def reasons_distinct split: option.splits)

theorem stale_check_uses_second_floor_witness:
  "map_of [(''u1'', fresh_alice)] (sub (alice_payload (-5))) = Some fresh_alice
   \<and> lastPasswordChange fresh_alice = None
   \<and> validate (List.member []) (map_of [(''u1'', fresh_alice)]) 0 (cookie_request ''tokA'')
      (alice_payload (-5)) \<noteq> Inl StaleCredentials
   \<and> map_of [(''u1'', alice)] (sub (alice_payload 100)) = Some alice
   \<and> lastPasswordChange alice = Some 100500 \<and> iat (alice_payload 100) = 100500 div 1000
   \<and> validate (List.member []) (map_of [(''u1'', alice)]) 0 (cookie_request ''tokA'')
      (alice_payload 100) \<noteq> Inl StaleCredentials
   \<and> validate (List.member []) (map_of [(''u1'', alice)]) 0 (cookie_request ''tokA'')
      (alice_payload 99) = Inl StaleCredentials"
proof -
  have a: "map_of [(''u1'', fresh_alice)] (sub (alice_payload (-5))) = Some fresh_alice"
    by (simp add: alice_payload_def)
  have b: "lastPasswordChange fresh_alice = None" by (simp add: fresh_alice_def)
  have c: "map_of [(''u1'', alice)] (sub (alice_payload 100)) = Some alice"
    by (simp add: alice_payload_def)
  have d: "lastPasswordChange alice = Some 100500" by (simp add: alice_def)
  have e: "iat (alice_payload 100) = 100500 div 1000" by (simp add: alice_payload_def)
  have f: "\<not> token_revoked (List.member []) (cookie_request ''tokA'')"
    by (simp add: token_revoked_def split: option.splits)
  have g: "map_of [(''u1'', alice)] (sub (alice_payload 99)) = Some alice
           \<and> iat (alice_payload 99) < 100500 div 1000"
    by (simp add: alice_payload_def)
  note t1 = stale_check_uses_second_floor [where isBl = "List.member []"
      and findById = "map_of [(''u1'', fresh_alice)]" and now = 0
      and req = "cookie_request ''tokA''" and pl = "alice_payload (-5)" and u = fresh_alice]
  note t2 = stale_check_uses_second_floor [where isBl = "List.member []"
      and findById = "map_of [(''u1'', alice)]" and now = 0
      and req = "cookie_request ''tokA''" and pl = "alice_payload 100" and u = alice
      and changed = 100500]
  note t3 = stale_check_uses_second_floor [where isBl = "List.member []"
      and findById = "map_of [(''u1'', alice)]" and now = 0
      and req = "cookie_request ''tokA''" and pl = "alice_payload 99"]
  from t1 a b have r1: "validate (List.member []) (map_of [(''u1'', fresh_alice)]) 0
      (cookie_request ''tokA'') (alice_payload (-5)) \<noteq> Inl StaleCredentials" by blast
  from t2 c d e have r2: "validate (List.member []) (map_of [(''u1'', alice)]) 0
      (cookie_request ''tokA'') (alice_payload 100) \<noteq> Inl StaleCredentials" by blast
  from t3 f g d have r3: "validate (List.member []) (map_of [(''u1'', alice)]) 0
      (cookie_request ''tokA'') (alice_payload 99) = Inl StaleCredentials" by blast
  from a b c d e r1 r2 r3 show ?thesis by blast
qed

section \<open>Properties of the projects service\<close>

lemma create_sync_nonfatal:
  assumes "findByEmail env userEmail = Inr (Some u)"
    and "objectIds (objectId env) (members_or_empty dto) = Inr ms"
    and "dbError env (Save (new_project env dto u ms)) = None"
    and "dbError env (FindById (newId env)) = None"
    and "createFromProject env (newId env) (dto_name dto) userEmail (members_or_empty dto) = Inl e"
  shows "create env dto userEmail st =
           (Inr (Some (new_project env dto u ms)),
            log_error e (stored (new_project env dto u ms) st))"
proof -
  have i: "proj_id (new_project env dto u ms) = newId env" by (simp add: new_project_def)
  show ?thesis
    using assms
    by (simp add: create_def db_save_def db_findById_def i log_error_def stored_def)
qed

lemma create_with_team:
  assumes "findByEmail env userEmail = Inr (Some u)"
    and "objectIds (objectId env) (members_or_empty dto) = Inr ms"
    and "dbError env (Save (new_project env dto u ms)) = None"
    and "dbError env (FindById (newId env)) = None"
    and "createFromProject env (newId env) (dto_name dto) userEmail (members_or_empty dto) = Inr team"
    and "dbError env (Save (new_project env dto u ms \<lparr> teamId := Some team \<rparr>)) = None"
  shows "create env dto userEmail st =
           (Inr (Some (new_project env dto u ms \<lparr> teamId := Some team \<rparr>)),
            stored (new_project env dto u ms \<lparr> teamId := Some team \<rparr>) st)"
proof -
  have i: "proj_id (new_project env dto u ms) = newId env" by (simp add: new_project_def)
  show ?thesis
    using assms
    by (simp add: create_def db_save_def db_findById_def i stored_def)
qed

text \<open>
  The save of the team id stands in the same try block as the provisioning call: when it
  throws, the error is logged and the project is returned without a team id.
\<close>

lemma create_team_link_failure_logged:
  assumes "findByEmail env userEmail = Inr (Some u)"
    and "objectIds (objectId env) (members_or_empty dto) = Inr ms"
    and "dbError env (Save (new_project env dto u ms)) = None"
    and "dbError env (FindById (newId env)) = None"
    and "createFromProject env (newId env) (dto_name dto) userEmail (members_or_empty dto) = Inr team"
    and "dbError env (Save (new_project env dto u ms \<lparr> teamId := Some team \<rparr>)) = Some e"
  shows "create env dto userEmail st =
           (Inr (Some (new_project env dto u ms)),
            log_error e (stored (new_project env dto u ms) st))"
proof -
  have i: "proj_id (new_project env dto u ms) = newId env" by (simp add: new_project_def)
  show ?thesis
    using assms
    by (simp add: create_def db_save_def db_findById_def i log_error_def stored_def)
qed

lemma update_sync_nonfatal:
  assumes "findByEmail env userEmail = Inr (Some u)"
    and "db_findById env st i = Inr (Some p)"
    and "createdBy p = user_id u"
    and "upd_members dto = Some ms"
    and "objectIds (objectId env) ms = Inr oids"
    and "dbError env (Save (updated_project dto p oids)) = None"
    and "updateProjectTeamMembers env i ms = Inl e"
  shows "update env i dto userEmail st =
           (Inr (updated_project dto p oids), stored (updated_project dto p oids) (log_error e st))"
  using assms
  by (simp add: update_def db_save_def updated_project_def stored_def)

lemma addMember_sync_nonfatal:
  assumes "findByEmail env userEmail = Inr (Some u)"
    and "db_findById env st i = Inr (Some p)"
    and "proj_id p = i"
    and "createdBy p = user_id u"
    and "objectId env userId = Inr m"
    and "m \<notin> set (members p)"
    and "dbError env (Save (with_member p m)) = None"
    and "updateProjectTeamMembers env i (members (with_member p m)) = Inl e"
  shows "addMember env i userId userEmail st =
           (Inr (with_member p m), log_error e (stored (with_member p m) st))"
proof -
  have f: "dbError env (FindById i) = None"
    using assms(2) by (simp add: db_findById_def split: option.splits)
  have i: "proj_id (with_member p m) = i" using assms(3) by (simp add: with_member_def)
  show ?thesis
    using assms(1,2,4-8) f i
    by (simp add: addMember_def db_save_def db_findById_def log_error_def stored_def)
qed

lemma removeMember_sync_nonfatal:
  assumes "findByEmail env userEmail = Inr (Some u)"
    and "db_findById env st i = Inr (Some p)"
    and "proj_id p = i"
    and "createdBy p = user_id u"
    and "dbError env (Save (without_member p userId)) = None"
    and "updateProjectTeamMembers env i (members (without_member p userId)) = Inl e"
  shows "removeMember env i userId userEmail st =
           (Inr (without_member p userId), log_error e (stored (without_member p userId) st))"
proof -
  have f: "dbError env (FindById i) = None"
    using assms(2) by (simp add: db_findById_def split: option.splits)
  have i: "proj_id (without_member p userId) = i" using assms(3) by (simp add: without_member_def)
  show ?thesis
    using assms(1,2,4-6) f i
    by (simp add: removeMember_def db_save_def db_findById_def log_error_def stored_def)
qed


lemma user_lookup_errors_surface:
  assumes "findByEmail env userEmail = Inl e"
  shows "fst (create env cdto userEmail st) = Inl e \<and> fst (update env i dto userEmail st) = Inl e
       \<and> fst (addMember env i userId userEmail st) = Inl e
       \<and> fst (removeMember env i userId userEmail st) = Inl e"
  using assms by (simp add: create_def update_def addMember_def removeMember_def)

lemma missing_user_rejected:
  assumes "findByEmail env userEmail = Inr None"
  shows "fst (create env cdto userEmail st) = Inl (NotFoundException ''User not found'')
       \<and> fst (update env i dto userEmail st) = Inl (NotFoundException ''User not found'')
       \<and> fst (addMember env i userId userEmail st) = Inl (NotFoundException ''User not found'')
       \<and> fst (removeMember env i userId userEmail st) = Inl (NotFoundException ''User not found'')"
  using assms by (simp add: create_def update_def addMember_def removeMember_def)

lemma project_lookup_errors_surface:
  assumes "findByEmail env userEmail = Inr (Some u)" and "db_findById env st i = Inl e"
  shows "fst (update env i dto userEmail st) = Inl e
       \<and> fst (addMember env i userId userEmail st) = Inl e
       \<and> fst (removeMember env i userId userEmail st) = Inl e"
  using assms by (simp add: update_def addMember_def removeMember_def)

lemma missing_project_rejected:
  assumes "findByEmail env userEmail = Inr (Some u)" and "db_findById env st i = Inr None"
  shows "fst (update env i dto userEmail st) = Inl (NotFoundException ''Project not found'')
       \<and> fst (addMember env i userId userEmail st) = Inl (NotFoundException ''Project not found'')
       \<and> fst (removeMember env i userId userEmail st) = Inl (NotFoundException ''Project not found'')"
  using assms by (simp add: update_def addMember_def removeMember_def)

lemma non_creator_rejected:
  assumes "findByEmail env userEmail = Inr (Some u)" and "db_findById env st i = Inr (Some p)"
    and "createdBy p \<noteq> user_id u"
  shows "fst (update env i dto userEmail st) =
           Inl (ForbiddenException ''Only the project creator can update this project'')
       \<and> fst (addMember env i userId userEmail st) =
           Inl (ForbiddenException ''Only the project creator can add members'')
       \<and> fst (removeMember env i userId userEmail st) =
           Inl (ForbiddenException ''Only the project creator can remove members'')"
  using assms by (simp add: update_def addMember_def removeMember_def)

lemma create_errors_surface:
  assumes "findByEmail env userEmail = Inr (Some u)"
  shows "(objectIds (objectId env) (members_or_empty cdto) = Inl e \<longrightarrow>
            fst (create env cdto userEmail st) = Inl e)
       \<and> (objectIds (objectId env) (members_or_empty cdto) = Inr ms
            \<and> dbError env (Save (new_project env cdto u ms)) = Some e \<longrightarrow>
            fst (create env cdto userEmail st) = Inl e)
       \<and> (objectIds (objectId env) (members_or_empty cdto) = Inr ms
            \<and> dbError env (Save (new_project env cdto u ms)) = None
            \<and> dbError env (FindById (newId env)) = Some e \<longrightarrow>
            fst (create env cdto userEmail st) = Inl e)"
proof -
  have i: "proj_id (new_project env cdto u ms) = newId env" by (simp add: new_project_def)
  show ?thesis
    using assms
    by (auto simp: create_def db_save_def db_findById_def i Let_def split: sum.splits prod.splits)
qed

lemma update_errors_surface:
  assumes "findByEmail env userEmail = Inr (Some u)" and "db_findById env st i = Inr (Some p)"
    and "createdBy p = user_id u"
  shows "(upd_members dto = Some ms \<and> objectIds (objectId env) ms = Inl e \<longrightarrow>
            fst (update env i dto userEmail st) = Inl e)
       \<and> (upd_members dto = Some ms \<and> objectIds (objectId env) ms = Inr oids
            \<and> dbError env (Save (updated_project dto p oids)) = Some e \<longrightarrow>
            fst (update env i dto userEmail st) = Inl e)
       \<and> (upd_members dto = None \<and> dbError env (Save (assign_fields dto p)) = Some e \<longrightarrow>
            fst (update env i dto userEmail st) = Inl e)"
  using assms by (simp add: update_def db_save_def updated_project_def)

lemma member_errors_surface:
  assumes "findByEmail env userEmail = Inr (Some u)" and "db_findById env st i = Inr (Some p)"
    and "createdBy p = user_id u"
  shows "(objectId env userId = Inl e \<longrightarrow> fst (addMember env i userId userEmail st) = Inl e)
       \<and> (objectId env userId = Inr m \<and> m \<notin> set (members p)
            \<and> dbError env (Save (with_member p m)) = Some e \<longrightarrow>
            fst (addMember env i userId userEmail st) = Inl e)
       \<and> (dbError env (Save (without_member p userId)) = Some e \<longrightarrow>
            fst (removeMember env i userId userEmail st) = Inl e)"
  using assms by (simp add: addMember_def removeMember_def db_save_def)

text \<open>
  C8. Cross-entity synchronisation failures are not fatal, and nothing else is swallowed.
  When the users service, the ObjectId constructor and the document store work and team
  provisioning throws, \<open>create\<close> still returns the saved project (without a team id),
  leaves it in the store and logs the error (the try block also holds the save of the
  team id, whose failure is logged in the same way); likewise \<open>update\<close>, \<open>addMember\<close> and
  \<open>removeMember\<close> return the saved project when team-member synchronisation throws.
  Every other error reaches the caller: an exception of the users service, of the ObjectId
  constructor or of the document store (outside the try blocks) is returned as it is, a
  missing user or project is a \<open>NotFoundException\<close>, and a caller who is not the creator
  gets a \<open>ForbiddenException\<close>.
\<close>

theorem sync_failures_nonfatal_other_errors_surface:
  "(findByEmail env userEmail = Inr (Some u)
      \<and> objectIds (objectId env) (members_or_empty cdto) = Inr ms
      \<and> dbError env (Save (new_project env cdto u ms)) = None
      \<and> dbError env (FindById (newId env)) = None
      \<and> createFromProject env (newId env) (dto_name cdto) userEmail (members_or_empty cdto) = Inl e
    \<longrightarrow> create env cdto userEmail st =
          (Inr (Some (new_project env cdto u ms)),
           log_error e (stored (new_project env cdto u ms) st)))
   \<and> (findByEmail env userEmail = Inr (Some u) \<and> db_findById env st i = Inr (Some p)
      \<and> proj_id p = i \<and> createdBy p = user_id u
    \<longrightarrow> (upd_members dto = Some ids \<and> objectIds (objectId env) ids = Inr oids
          \<and> dbError env (Save (updated_project dto p oids)) = None
          \<and> updateProjectTeamMembers env i ids = Inl e
        \<longrightarrow> update env i dto userEmail st =
              (Inr (updated_project dto p oids),
               stored (updated_project dto p oids) (log_error e st)))
      \<and> (objectId env userId = Inr m \<and> m \<notin> set (members p)
          \<and> dbError env (Save (with_member p m)) = None
          \<and> updateProjectTeamMembers env i (members (with_member p m)) = Inl e
        \<longrightarrow> addMember env i userId userEmail st =
              (Inr (with_member p m), log_error e (stored (with_member p m) st)))
      \<and> (dbError env (Save (without_member p userId)) = None
          \<and> updateProjectTeamMembers env i (members (without_member p userId)) = Inl e
        \<longrightarrow> removeMember env i userId userEmail st =
              (Inr (without_member p userId),
               log_error e (stored (without_member p userId) st))))
   \<and> (findByEmail env userEmail = Inl e
    \<longrightarrow> fst (create env cdto userEmail st) = Inl e
      \<and> fst (update env i dto userEmail st) = Inl e
      \<and> fst (addMember env i userId userEmail st) = Inl e
      \<and> fst (removeMember env i userId userEmail st) = Inl e)
   \<and> (findByEmail env userEmail = Inr None
    \<longrightarrow> fst (create env cdto userEmail st) = Inl (NotFoundException ''User not found'')
      \<and> fst (update env i dto userEmail st) = Inl (NotFoundException ''User not found'')
      \<and> fst (addMember env i userId userEmail st) = Inl (NotFoundException ''User not found'')
      \<and> fst (removeMember env i userId userEmail st) = Inl (NotFoundException ''User not found''))
   \<and> (findByEmail env userEmail = Inr (Some u) \<and> db_findById env st i = Inl e
    \<longrightarrow> fst (update env i dto userEmail st) = Inl e
      \<and> fst (addMember env i userId userEmail st) = Inl e
      \<and> fst (removeMember env i userId userEmail st) = Inl e)
   \<and> (findByEmail env userEmail = Inr (Some u) \<and> db_findById env st i = Inr None
    \<longrightarrow> fst (update env i dto userEmail st) = Inl (NotFoundException ''Project not found'')
      \<and> fst (addMember env i userId userEmail st) = Inl (NotFoundException ''Project not found'')
      \<and> fst (removeMember env i userId userEmail st) = Inl (NotFoundException ''Project not found''))
   \<and> (findByEmail env userEmail = Inr (Some u) \<and> db_findById env st i = Inr (Some p)
      \<and> createdBy p \<noteq> user_id u
    \<longrightarrow> fst (update env i dto userEmail st) =
          Inl (ForbiddenException ''Only the project creator can update this project'')
      \<and> fst (addMember env i userId userEmail st) =
          Inl (ForbiddenException ''Only the project creator can add members'')
      \<and> fst (removeMember env i userId userEmail st) =
          Inl (ForbiddenException ''Only the project creator can remove members''))
   \<and> (findByEmail env userEmail = Inr (Some u)
    \<longrightarrow> (objectIds (objectId env) (members_or_empty cdto) = Inl e \<longrightarrow>
            fst (create env cdto userEmail st) = Inl e)
      \<and> (objectIds (objectId env) (members_or_empty cdto) = Inr ms
            \<and> dbError env (Save (new_project env cdto u ms)) = Some e \<longrightarrow>
            fst (create env cdto userEmail st) = Inl e)
      \<and> (objectIds (objectId env) (members_or_empty cdto) = Inr ms
            \<and> dbError env (Save (new_project env cdto u ms)) = None
            \<and> dbError env (FindById (newId env)) = Some e \<longrightarrow>
            fst (create env cdto userEmail st) = Inl e))
   \<and> (findByEmail env userEmail = Inr (Some u) \<and> db_findById env st i = Inr (Some p)
      \<and> createdBy p = user_id u
    \<longrightarrow> (upd_members dto = Some ids \<and> objectIds (objectId env) ids = Inl e \<longrightarrow>
            fst (update env i dto userEmail st) = Inl e)
      \<and> (upd_members dto = Some ids \<and> objectIds (objectId env) ids = Inr oids
            \<and> dbError env (Save (updated_project dto p oids)) = Some e \<longrightarrow>
            fst (update env i dto userEmail st) = Inl e)
      \<and> (upd_members dto = None \<and> dbError env (Save (assign_fields dto p)) = Some e \<longrightarrow>
            fst (update env i dto userEmail st) = Inl e)
      \<and> (objectId env userId = Inl e \<longrightarrow> fst (addMember env i userId userEmail st) = Inl e)
      \<and> (objectId env userId = Inr m \<and> m \<notin> set (members p)
            \<and> dbError env (Save (with_member p m)) = Some e \<longrightarrow>
            fst (addMember env i userId userEmail st) = Inl e)
      \<and> (dbError env (Save (without_member p userId)) = Some e \<longrightarrow>
            fst (removeMember env i userId userEmail st) = Inl e))"
proof (intro conjI impI; (elim conjE)?)
qed (simp_all add: create_sync_nonfatal update_sync_nonfatal addMember_sync_nonfatal
      removeMember_sync_nonfatal user_lookup_errors_surface missing_user_rejected
      project_lookup_errors_surface missing_project_rejected non_creator_rejected
      create_errors_surface update_errors_surface member_errors_surface)


lemmas example_env_defs =
  teams_down_env_def users_down_env_def save_down_env_def find_down_env_def bad_ids_env_def
  roadmap_dto_def roadmap_def members_dto_def status_dto_def no_projects_def one_project_def
  foreign_project_def alice_def members_or_empty_def new_project_def updated_project_def
  assign_fields_def with_member_def without_member_def db_findById_def js_or_def truthy_def
  date_of_def

theorem sync_failures_nonfatal_other_errors_surface_witness:
  "create teams_down_env roadmap_dto ''a@x.com'' no_projects =
      (Inr (Some roadmap), log_error teams_down (stored roadmap no_projects))
   \<and> update teams_down_env ''p1'' members_dto ''a@x.com'' one_project =
      (Inr (roadmap \<lparr> members := [''u3''], status := ''done'' \<rparr>),
       stored (roadmap \<lparr> members := [''u3''], status := ''done'' \<rparr>)
         (log_error teams_down one_project))
   \<and> addMember teams_down_env ''p1'' ''u3'' ''a@x.com'' one_project =
      (Inr (roadmap \<lparr> members := [''u2'', ''u3''] \<rparr>),
       log_error teams_down (stored (roadmap \<lparr> members := [''u2'', ''u3''] \<rparr>) one_project))
   \<and> removeMember teams_down_env ''p1'' ''u2'' ''a@x.com'' one_project =
      (Inr (roadmap \<lparr> members := [] \<rparr>),
       log_error teams_down (stored (roadmap \<lparr> members := [] \<rparr>) one_project))
   \<and> fst (create users_down_env roadmap_dto ''a@x.com'' no_projects) =
      Inl (CollaboratorError ''users service unavailable'')
   \<and> fst (update teams_down_env ''p1'' members_dto ''nobody@x.com'' one_project) =
      Inl (NotFoundException ''User not found'')
   \<and> fst (addMember find_down_env ''p1'' ''u3'' ''a@x.com'' one_project) = Inl store_down
   \<and> fst (removeMember teams_down_env ''p1'' ''u2'' ''a@x.com'' no_projects) =
      Inl (NotFoundException ''Project not found'')
   \<and> fst (update teams_down_env ''p1'' members_dto ''a@x.com'' foreign_project) =
      Inl (ForbiddenException ''Only the project creator can update this project'')
   \<and> fst (create bad_ids_env roadmap_dto ''a@x.com'' no_projects) = Inl (BSONError ''u2'')
   \<and> fst (create save_down_env roadmap_dto ''a@x.com'' no_projects) = Inl store_down
   \<and> fst (create find_down_env roadmap_dto ''a@x.com'' no_projects) = Inl store_down
   \<and> fst (update bad_ids_env ''p1'' members_dto ''a@x.com'' one_project) = Inl (BSONError ''u3'')
   \<and> fst (update save_down_env ''p1'' members_dto ''a@x.com'' one_project) = Inl store_down
   \<and> fst (update save_down_env ''p1'' status_dto ''a@x.com'' one_project) = Inl store_down
   \<and> fst (addMember bad_ids_env ''p1'' ''u3'' ''a@x.com'' one_project) = Inl (BSONError ''u3'')
   \<and> fst (addMember save_down_env ''p1'' ''u3'' ''a@x.com'' one_project) = Inl store_down
   \<and> fst (removeMember save_down_env ''p1'' ''u2'' ''a@x.com'' one_project) = Inl store_down"
proof -
  note T = sync_failures_nonfatal_other_errors_surface
  have w1: "create teams_down_env roadmap_dto ''a@x.com'' no_projects =
      (Inr (Some roadmap), log_error teams_down (stored roadmap no_projects))"
    using T [where env = teams_down_env and userEmail = "''a@x.com''" and u = alice
        and cdto = roadmap_dto and ms = "[''u2'']" and e = teams_down and st = no_projects,
        THEN conjunct1]
    by (simp add: example_env_defs)
  have w2: "update teams_down_env ''p1'' members_dto ''a@x.com'' one_project =
      (Inr (roadmap \<lparr> members := [''u3''], status := ''done'' \<rparr>),
       stored (roadmap \<lparr> members := [''u3''], status := ''done'' \<rparr>)
         (log_error teams_down one_project))"
    using T [where env = teams_down_env and userEmail = "''a@x.com''" and u = alice
        and st = one_project and i = "''p1''" and p = roadmap and dto = members_dto
        and ids = "[''u3'']" and oids = "[''u3'']" and e = teams_down,
        THEN conjunct2, THEN conjunct1]
    by (simp add: example_env_defs)
  have w3: "addMember teams_down_env ''p1'' ''u3'' ''a@x.com'' one_project =
      (Inr (roadmap \<lparr> members := [''u2'', ''u3''] \<rparr>),
       log_error teams_down (stored (roadmap \<lparr> members := [''u2'', ''u3''] \<rparr>) one_project))"
    using T [where env = teams_down_env and userEmail = "''a@x.com''" and u = alice
        and st = one_project and i = "''p1''" and p = roadmap and userId = "''u3''"
        and m = "''u3''" and e = teams_down,
        THEN conjunct2, THEN conjunct1]
    by (simp add: example_env_defs)
  have w4: "removeMember teams_down_env ''p1'' ''u2'' ''a@x.com'' one_project =
      (Inr (roadmap \<lparr> members := [] \<rparr>),
       log_error teams_down (stored (roadmap \<lparr> members := [] \<rparr>) one_project))"
    using T [where env = teams_down_env and userEmail = "''a@x.com''" and u = alice
        and st = one_project and i = "''p1''" and p = roadmap and userId = "''u2''"
        and e = teams_down,
        THEN conjunct2, THEN conjunct1]
    by (simp add: example_env_defs)
  have w5: "fst (create users_down_env roadmap_dto ''a@x.com'' no_projects) =
      Inl (CollaboratorError ''users service unavailable'')"
    using T [where env = users_down_env and userEmail = "''a@x.com''"
        and e = "CollaboratorError ''users service unavailable''",
        THEN conjunct2, THEN conjunct2, THEN conjunct1]
    by (simp add: example_env_defs)
  have w6: "fst (update teams_down_env ''p1'' members_dto ''nobody@x.com'' one_project) =
      Inl (NotFoundException ''User not found'')"
    using T [where env = teams_down_env and userEmail = "''nobody@x.com''",
        THEN conjunct2, THEN conjunct2, THEN conjunct2, THEN conjunct1]
    by (simp add: example_env_defs)
  have w7: "fst (addMember find_down_env ''p1'' ''u3'' ''a@x.com'' one_project) = Inl store_down"
    using T [where env = find_down_env and userEmail = "''a@x.com''" and u = alice
        and st = one_project and i = "''p1''" and e = store_down,
        THEN conjunct2, THEN conjunct2, THEN conjunct2, THEN conjunct2, THEN conjunct1]
    by (simp add: example_env_defs)
  have w8: "fst (removeMember teams_down_env ''p1'' ''u2'' ''a@x.com'' no_projects) =
      Inl (NotFoundException ''Project not found'')"
    using T [where env = teams_down_env and userEmail = "''a@x.com''" and u = alice
        and st = no_projects and i = "''p1''",
        THEN conjunct2, THEN conjunct2, THEN conjunct2, THEN conjunct2, THEN conjunct2, THEN conjunct1]
    by (simp add: example_env_defs)
  have w9: "fst (update teams_down_env ''p1'' members_dto ''a@x.com'' foreign_project) =
      Inl (ForbiddenException ''Only the project creator can update this project'')"
    using T [where env = teams_down_env and userEmail = "''a@x.com''" and u = alice
        and st = foreign_project and i = "''p1''" and p = "roadmap \<lparr> createdBy := ''u9'' \<rparr>",
        THEN conjunct2, THEN conjunct2, THEN conjunct2, THEN conjunct2, THEN conjunct2, THEN conjunct2, THEN conjunct1]
    by (simp add: example_env_defs)
  have w10: "fst (create bad_ids_env roadmap_dto ''a@x.com'' no_projects) = Inl (BSONError ''u2'')"
    using T [where env = bad_ids_env and userEmail = "''a@x.com''" and u = alice
        and cdto = roadmap_dto and e = "BSONError ''u2''",
        THEN conjunct2, THEN conjunct2, THEN conjunct2, THEN conjunct2, THEN conjunct2, THEN conjunct2, THEN conjunct2, THEN conjunct1]
    by (simp add: example_env_defs)
  have w11: "fst (create save_down_env roadmap_dto ''a@x.com'' no_projects) = Inl store_down"
    using T [where env = save_down_env and userEmail = "''a@x.com''" and u = alice
        and cdto = roadmap_dto and ms = "[''u2'']" and e = store_down,
        THEN conjunct2, THEN conjunct2, THEN conjunct2, THEN conjunct2, THEN conjunct2, THEN conjunct2, THEN conjunct2, THEN conjunct1]
    by (simp add: example_env_defs)
  have w12: "fst (create find_down_env roadmap_dto ''a@x.com'' no_projects) = Inl store_down"
    using T [where env = find_down_env and userEmail = "''a@x.com''" and u = alice
        and cdto = roadmap_dto and ms = "[''u2'']" and e = store_down,
        THEN conjunct2, THEN conjunct2, THEN conjunct2, THEN conjunct2, THEN conjunct2, THEN conjunct2, THEN conjunct2, THEN conjunct1]
    by (simp add: example_env_defs)
  have w13: "fst (update bad_ids_env ''p1'' members_dto ''a@x.com'' one_project) =
      Inl (BSONError ''u3'')"
    using T [where env = bad_ids_env and userEmail = "''a@x.com''" and u = alice
        and st = one_project and i = "''p1''" and p = roadmap and dto = members_dto
        and ids = "[''u3'']" and e = "BSONError ''u3''",
        THEN conjunct2, THEN conjunct2, THEN conjunct2, THEN conjunct2, THEN conjunct2, THEN conjunct2, THEN conjunct2, THEN conjunct2]
    by (simp add: example_env_defs)
  have w14: "fst (update save_down_env ''p1'' members_dto ''a@x.com'' one_project) = Inl store_down"
    using T [where env = save_down_env and userEmail = "''a@x.com''" and u = alice
        and st = one_project and i = "''p1''" and p = roadmap and dto = members_dto
        and ids = "[''u3'']" and oids = "[''u3'']" and e = store_down,
        THEN conjunct2, THEN conjunct2, THEN conjunct2, THEN conjunct2, THEN conjunct2, THEN conjunct2, THEN conjunct2, THEN conjunct2]
    by (simp add: example_env_defs)
  have w15: "fst (update save_down_env ''p1'' status_dto ''a@x.com'' one_project) = Inl store_down"
    using T [where env = save_down_env and userEmail = "''a@x.com''" and u = alice
        and st = one_project and i = "''p1''" and p = roadmap and dto = status_dto
        and e = store_down,
        THEN conjunct2, THEN conjunct2, THEN conjunct2, THEN conjunct2, THEN conjunct2, THEN conjunct2, THEN conjunct2, THEN conjunct2]
    by (simp add: example_env_defs)
  have w16: "fst (addMember bad_ids_env ''p1'' ''u3'' ''a@x.com'' one_project) =
      Inl (BSONError ''u3'')"
    using T [where env = bad_ids_env and userEmail = "''a@x.com''" and u = alice
        and st = one_project and i = "''p1''" and p = roadmap and userId = "''u3''"
        and e = "BSONError ''u3''",
        THEN conjunct2, THEN conjunct2, THEN conjunct2, THEN conjunct2, THEN conjunct2, THEN conjunct2, THEN conjunct2, THEN conjunct2]
    by (simp add: example_env_defs)
  have w17: "fst (addMember save_down_env ''p1'' ''u3'' ''a@x.com'' one_project) = Inl store_down"
    using T [where env = save_down_env and userEmail = "''a@x.com''" and u = alice
        and st = one_project and i = "''p1''" and p = roadmap and userId = "''u3''"
        and m = "''u3''" and e = store_down,
        THEN conjunct2, THEN conjunct2, THEN conjunct2, THEN conjunct2, THEN conjunct2, THEN conjunct2, THEN conjunct2, THEN conjunct2]
    by (simp add: example_env_defs)
  have w18: "fst (removeMember save_down_env ''p1'' ''u2'' ''a@x.com'' one_project) = Inl store_down"
    using T [where env = save_down_env and userEmail = "''a@x.com''" and u = alice
        and st = one_project and i = "''p1''" and p = roadmap and userId = "''u2''"
        and e = store_down,
        THEN conjunct2, THEN conjunct2, THEN conjunct2, THEN conjunct2, THEN conjunct2, THEN conjunct2, THEN conjunct2, THEN conjunct2]
    by (simp add: example_env_defs)
  from w1 w2 w3 w4 w5 w6 w7 w8 w9 w10 w11 w12 w13 w14 w15 w16 w17 w18 show ?thesis
    by blast
qed

section \<open>Properties of the Google OAuth flow\<close>

lemma invoke_eq:
  "invoke vol profile a b (st, log) = (fst (vol profile a b st), snd (vol profile a b st),
     log @ [(profile, a, b)])"
  by (simp add: invoke_def split: prod.splits)

text \<open>
  C10. A completed Google login invokes \<open>validateOAuthLogin\<close> exactly twice, first from
  the strategy and then from the redirect handler, both times with the same raw profile,
  and the second invocation runs on the state the first one left; the cookies carry the
  tokens of the second. So, for the pair \<open>k\<close> of provider and subject and any view
  \<open>ids\<close> of the identities in the state: once the first invocation has established an
  identity, the flow leaves at most one only if the second invocation adds none, and it
  does leave at most one when the second invocation leaves the identities as the first
  left them.
\<close>

theorem google_flow_invokes_twice:
  assumes "google_login_flow vol frontendUrlEnv profile req (st, log) = (Inr resp, st2, log2)"
  shows "\<exists>st1 t1 t2.
           vol profile None None st = (Inr t1, st1)
         \<and> vol profile (ip req) (userAgent req) st1 = (Inr t2, st2)
         \<and> log2 = log @ [(profile, None, None), (profile, ip req, userAgent req)]
         \<and> set_cookies resp = [(''accessToken'', Some (pair_accessToken t2)),
                                (''refreshToken'', Some (pair_refreshToken t2))]
         \<and> (1 \<le> identities_for k (ids st1) \<and> identities_for k (ids st2) \<le> 1
              \<longrightarrow> identities_for k (ids st2) \<le> identities_for k (ids st1))
         \<and> (identities_for k (ids st1) \<le> 1 \<and> ids st2 = ids st1
              \<longrightarrow> identities_for k (ids st2) \<le> 1)"
proof -
  obtain r1 st1 where c1: "vol profile None None st = (r1, st1)" by (cases "vol profile None None st")
  obtain r2 st2' where c2: "vol profile (ip req) (userAgent req) st1 = (r2, st2')"
    by (cases "vol profile (ip req) (userAgent req) st1")
  from assms c1 obtain t1 where r1: "r1 = Inr t1"
    by (cases r1) (simp_all add: google_login_flow_def GoogleStrategy_validate_def invoke_eq)
  from assms c1 c2 r1 obtain t2 where r2: "r2 = Inr t2"
    by (cases r2)
      (simp_all add: google_login_flow_def GoogleStrategy_validate_def googleAuthRedirect_def
        invoke_eq)
  from assms c1 c2 r1 r2
  have "st2 = st2'" and "log2 = log @ [(profile, None, None), (profile, ip req, userAgent req)]"
    and "set_cookies resp = [(''accessToken'', Some (pair_accessToken t2)),
                             (''refreshToken'', Some (pair_refreshToken t2))]"
    by (auto simp: google_login_flow_def GoogleStrategy_validate_def googleAuthRedirect_def
        invoke_eq)
  with c1 c2 r1 r2 show ?thesis by auto
qed

lemma validateOAuthLogin_establishes:
  assumes "validateOAuthLogin env profile a b ids = (r, ids1)"
  shows "find (\<lambda>u. oauthLink u = Some (op_provider profile, op_subject profile)) ids1 \<noteq> None"
proof (cases "find (\<lambda>u. oauthLink u = Some (op_provider profile, op_subject profile)) ids")
  case (Some u)
  with assms show ?thesis by (simp add: validateOAuthLogin_def)
next
  case None
  show ?thesis
  proof (cases "find (\<lambda>u. user_email u = op_email profile \<and> emailVerified u) ids")
    case (Some u)
    then have u: "u \<in> set ids" by (auto simp: find_Some_iff)
    let ?linked = "u \<lparr> oauthLink := Some (op_provider profile, op_subject profile) \<rparr>"
    from assms None Some
    have ids1: "ids1 = map (\<lambda>v. if user_id v = user_id u then ?linked else v) ids"
      by (simp add: validateOAuthLogin_def Let_def)
    from u have "?linked \<in> set ids1" unfolding ids1 by force
    then show ?thesis by (auto simp: find_None_iff)
  next
    case None2: None
    with assms None show ?thesis
      by (auto simp: validateOAuthLogin_def Let_def find_None_iff)
  qed
qed

lemma validateOAuthLogin_reuses:
  assumes "validateOAuthLogin env profile a b ids = (r, ids1)"
  shows "snd (validateOAuthLogin env profile a' b' ids1) = ids1"
  using validateOAuthLogin_establishes [OF assms]
  by (auto simp: validateOAuthLogin_def split: option.splits)

theorem google_flow_invokes_twice_witness:
  "google_login_flow (validateOAuthLogin demo_oauth_env) None google_profile callback_request
      ([], []) =
     (Inr \<lparr> set_cookies = [(''accessToken'', Some ''access:g''), (''refreshToken'', Some ''refresh:g'')],
            cleared_cookies = [], reply = Redirect ''http://localhost:3001/dashboard'' \<rparr>,
      [bea],
      [(google_profile, None, None), (google_profile, Some ''10.0.0.7'', Some ''Mozilla'')])
   \<and> (\<exists>st1 t1 t2.
         validateOAuthLogin demo_oauth_env google_profile None None [] = (Inr t1, st1)
       \<and> validateOAuthLogin demo_oauth_env google_profile (Some ''10.0.0.7'') (Some ''Mozilla'') st1
           = (Inr t2, [bea])
       \<and> 1 \<le> identities_for (''google'', ''108'') st1 \<and> [bea] = st1)
   \<and> identities_for (''google'', ''108'') [] = 0
   \<and> identities_for (''google'', ''108'') [bea] = 1"
proof -
  have run: "google_login_flow (validateOAuthLogin demo_oauth_env) None google_profile
      callback_request ([], []) =
     (Inr \<lparr> set_cookies = [(''accessToken'', Some ''access:g''), (''refreshToken'', Some ''refresh:g'')],
            cleared_cookies = [], reply = Redirect ''http://localhost:3001/dashboard'' \<rparr>,
      [bea],
      [(google_profile, None, None), (google_profile, Some ''10.0.0.7'', Some ''Mozilla'')])"
    by (simp add: google_login_flow_def GoogleStrategy_validate_def googleAuthRedirect_def
        invoke_def validateOAuthLogin_def demo_oauth_env_def google_profile_def
        callback_request_def bea_def js_or_def truthy_def)
  have first: "validateOAuthLogin demo_oauth_env google_profile None None [] =
      (Inr \<lparr> pair_accessToken = ''access:g'', pair_refreshToken = ''refresh:g'' \<rparr>, [bea])"
    by (simp add: validateOAuthLogin_def demo_oauth_env_def google_profile_def bea_def)
  have counts: "identities_for (''google'', ''108'') [] = 0"
    "identities_for (''google'', ''108'') [bea] = 1"
    by (simp_all add: identities_for_def bea_def)
  from google_flow_invokes_twice [OF run, where ids = "\<lambda>s. s" and k = "(''google'', ''108'')"]
  obtain st1 t1 t2 where
    a: "validateOAuthLogin demo_oauth_env google_profile None None [] = (Inr t1, st1)"
    and b: "validateOAuthLogin demo_oauth_env google_profile (ip callback_request)
              (userAgent callback_request) st1 = (Inr t2, [bea])"
    by blast
  from a first have st1: "st1 = [bea]" by simp
  from b have b': "validateOAuthLogin demo_oauth_env google_profile (Some ''10.0.0.7'')
      (Some ''Mozilla'') st1 = (Inr t2, [bea])"
    by (simp add: callback_request_def)
  from a b' st1 counts have "\<exists>st1 t1 t2.
         validateOAuthLogin demo_oauth_env google_profile None None [] = (Inr t1, st1)
       \<and> validateOAuthLogin demo_oauth_env google_profile (Some ''10.0.0.7'') (Some ''Mozilla'') st1
           = (Inr t2, [bea])
       \<and> 1 \<le> identities_for (''google'', ''108'') st1 \<and> [bea] = st1"
    by auto
  with run counts show ?thesis by blast
qed

section \<open>Properties of logout\<close>

lemma logout_without_cookies:
  assumes "\<not> truthy (map_of (cookies req) ''accessToken'')"
    and "\<not> truthy (map_of (cookies req) ''refreshToken'')"
  shows "AuthController_logout service_logout req st = (Inr logged_out, st)"
  using assms by (simp add: AuthController_logout_def logged_out_def)

lemma logout_with_cookie_revokes:
  assumes "map_of (cookies req) ''accessToken'' = Some t" and "t \<noteq> []"
    and "decode t = Some c" and "now < c_expiry c"
  shows "AuthController_logout (logout decode now) req st = (Inr logged_out, st1)
         \<Longrightarrow> TokenBlacklistService_isTokenBlacklisted decode st1 t"
  using assms
  by (auto simp: AuthController_logout_def logout_def revoke_token_def revoke_def
      TokenBlacklistService_isTokenBlacklisted_def isRevoked_def truthy_def Let_def split: option.splits)

text \<open>
  C6, evaluated on the code. A logout request that carries the access token \<open>tokA\<close> in
  the \<open>Authorization\<close> header and has no cookie passes the guard (\<open>validate\<close> accepts the
  header), the handler answers with success without calling \<open>AuthService.logout\<close>, the
  registry is left as it was, and \<open>validate\<close> on the same token still returns the
  principal. The same logout with the tokens in cookies does revoke \<open>tokA\<close>.
\<close>

theorem logout_skips_header_token:
  "validate (TokenBlacklistService_isTokenBlacklisted demo_decode no_sessions) (map_of [(''u1'', alice)]) 1000
      header_logout_request (alice_payload 200) = Inr alice_principal
   \<and> AuthController_logout (logout demo_decode 1000) header_logout_request no_sessions =
       (Inr logged_out, no_sessions)
   \<and> validate
        (TokenBlacklistService_isTokenBlacklisted demo_decode
           (snd (AuthController_logout (logout demo_decode 1000) header_logout_request
              no_sessions)))
        (map_of [(''u1'', alice)]) 1001 (bearer_request ''tokA'') (alice_payload 200) =
       Inr alice_principal
   \<and> validate
        (TokenBlacklistService_isTokenBlacklisted demo_decode
           (snd (AuthController_logout (logout demo_decode 1000) cookie_logout_request
              no_sessions)))
        (map_of [(''u1'', alice)]) 1001 (bearer_request ''tokA'') (alice_payload 200) =
       Inl TokenRevoked"
proof -
  have h: "AuthController_logout (logout demo_decode 1000) header_logout_request no_sessions =
       (Inr logged_out, no_sessions)"
    by (rule logout_without_cookies) (simp_all add: header_logout_request_def truthy_def)
  have c: "snd (AuthController_logout (logout demo_decode 1000) cookie_logout_request
      no_sessions) = \<lparr> revoked = [(12, 2592000000), (11, 900000)], revokedFamilies = [], rotated = [],
         minted = 0 \<rparr>"
    by (simp add: AuthController_logout_def cookie_logout_request_def truthy_def logout_def
        revoke_token_def revoke_def demo_decode_def no_sessions_def)
  have t: "request_token header_logout_request = Some ''tokA''"
    "request_token (bearer_request ''tokA'') = Some ''tokA''"
    by (simp_all add: request_token_def header_logout_request_def bearer_request_def js_or_def
        truthy_def)
  have b0: "\<not> TokenBlacklistService_isTokenBlacklisted demo_decode no_sessions ''tokA''"
    by (simp add: TokenBlacklistService_isTokenBlacklisted_def isRevoked_def demo_decode_def no_sessions_def)
  have b1: "TokenBlacklistService_isTokenBlacklisted demo_decode
      \<lparr> revoked = [(12, 2592000000), (11, 900000)], revokedFamilies = [], rotated = [],
         minted = 0 \<rparr> ''tokA''"
    by (simp add: TokenBlacklistService_isTokenBlacklisted_def isRevoked_def demo_decode_def)
  have ok: "\<not> stale_by_seconds alice (alice_payload 200)" "\<not> locked_out alice 1000"
    "\<not> locked_out alice 1001" "sub (alice_payload 200) = ''u1''"
    by (simp_all add: stale_by_seconds_def locked_out_def alice_def alice_payload_def)
  show ?thesis
    unfolding h c
    by (simp add: validate_unfold token_revoked_def t b0 b1 ok alice_principal_def)
qed

section \<open>Properties of the login policy engine\<close>

lemma find_by_email_email: "find_by_email ids e = Some u \<Longrightarrow> user_email u = e"
  by (auto simp: find_by_email_def find_Some_iff)

lemma find_by_email_save:
  assumes "find_by_email ids e = Some u" and "user_id u' = user_id u" and "user_email u' = e"
  shows "find_by_email (save_identity u' ids) e = Some u'"
  using assms
proof (induction ids)
  case Nil
  then show ?case by (simp add: find_by_email_def)
next
  case (Cons v ids)
  show ?case
  proof (cases "user_email v = e")
    case True
    with Cons.prems have "v = u" by (simp add: find_by_email_def)
    with Cons.prems show ?thesis by (simp add: find_by_email_def save_identity_def)
  next
    case False
    with Cons.prems have "find_by_email ids e = Some u" by (simp add: find_by_email_def)
    from Cons.IH [OF this Cons.prems(2,3)] False Cons.prems(2,3) show ?thesis
      by (simp add: find_by_email_def save_identity_def)
  qed
qed

text \<open>The identity a correct-password login evaluates: the counter is reset once a lockout has passed.\<close>

lemma login_correct_password:
  assumes "find_by_email ids e = Some u" and "passwordHash u = Some digest"
    and "verifyPassword env password digest"
    and "\<not> locked_out u now"
  shows "twoFactorEnabled u \<Longrightarrow>
           \<exists>u0. login cfg env now e password a b ids =
             (Inr \<lparr> lr_requires2FA = Some True, lr_tempToken = Some (issueChallenge env u0),
                    lr_accessToken = None, lr_refreshToken = None \<rparr>, save_identity u0 ids)
             \<and> user_id u0 = user_id u \<and> user_email u0 = e"
    and "\<not> twoFactorEnabled u \<Longrightarrow>
           \<exists>u0. login cfg env now e password a b ids =
             (Inr \<lparr> lr_requires2FA = None, lr_tempToken = None,
                    lr_accessToken = Some (pair_accessToken (issuePair env u0)),
                    lr_refreshToken = Some (pair_refreshToken (issuePair env u0)) \<rparr>,
              save_identity (u0 \<lparr> failedLoginAttempts := 0 \<rparr>) ids)
             \<and> user_id u0 = user_id u \<and> user_email u0 = e"
  using assms find_by_email_email [OF assms(1)]
  by (auto simp: login_def locked_out_def Let_def split: option.splits)

text \<open>
  C7. For an identity that is not locked out and a login with its correct password, through
  \<open>AuthController.login\<close>: with 2FA enabled the service returns only the challenge token
  (no \<open>accessToken\<close>, no \<open>refreshToken\<close>) and the controller sets no cookie and replies
  with the challenge alone; with 2FA disabled the failed-attempt counter of the identity is
  zero afterwards, and both tokens of the pair are handed over as cookies.
\<close>

theorem login_challenge_or_token_pair:
  assumes "find_by_email ids e = Some u" and "passwordHash u = Some digest"
    and "verifyPassword env password digest"
    and "\<not> locked_out u now"
  shows "(twoFactorEnabled u \<longrightarrow>
            (\<exists>challenge ids1.
               fst (login cfg env now e password (ip req) (userAgent req) ids) =
                 Inr \<lparr> lr_requires2FA = Some True, lr_tempToken = Some challenge,
                       lr_accessToken = None, lr_refreshToken = None \<rparr>
             \<and> AuthController_login (login cfg env now) e password req ids =
                 (Inr \<lparr> set_cookies = [], cleared_cookies = [],
                        reply = Json_requires2FA (Some challenge) \<rparr>, ids1)))
       \<and> (\<not> twoFactorEnabled u \<longrightarrow>
            (\<exists>(tokens::token_pair) ids1 u1.
               AuthController_login (login cfg env now) e password req ids =
                 (Inr \<lparr> set_cookies = [(''accessToken'', Some (pair_accessToken tokens)),
                                        (''refreshToken'', Some (pair_refreshToken tokens))],
                        cleared_cookies = [], reply = Json_success \<rparr>, ids1)
             \<and> find_by_email ids1 e = Some u1 \<and> failedLoginAttempts u1 = 0))"
proof (intro conjI impI)
  assume "twoFactorEnabled u"
  from login_correct_password(1) [OF assms this, of cfg "ip req" "userAgent req"]
  obtain u0 where "login cfg env now e password (ip req) (userAgent req) ids =
             (Inr \<lparr> lr_requires2FA = Some True, lr_tempToken = Some (issueChallenge env u0),
                    lr_accessToken = None, lr_refreshToken = None \<rparr>, save_identity u0 ids)"
    by blast
  then show "\<exists>challenge ids1.
               fst (login cfg env now e password (ip req) (userAgent req) ids) =
                 Inr \<lparr> lr_requires2FA = Some True, lr_tempToken = Some challenge,
                       lr_accessToken = None, lr_refreshToken = None \<rparr>
             \<and> AuthController_login (login cfg env now) e password req ids =
                 (Inr \<lparr> set_cookies = [], cleared_cookies = [],
                        reply = Json_requires2FA (Some challenge) \<rparr>, ids1)"
    by (simp add: AuthController_login_def)
next
  assume "\<not> twoFactorEnabled u"
  from login_correct_password(2) [OF assms this, of cfg "ip req" "userAgent req"]
  obtain u0 where l: "login cfg env now e password (ip req) (userAgent req) ids =
             (Inr \<lparr> lr_requires2FA = None, lr_tempToken = None,
                    lr_accessToken = Some (pair_accessToken (issuePair env u0)),
                    lr_refreshToken = Some (pair_refreshToken (issuePair env u0)) \<rparr>,
              save_identity (u0 \<lparr> failedLoginAttempts := 0 \<rparr>) ids)"
    and i: "user_id u0 = user_id u" "user_email u0 = e"
    by blast
  from i have B: "find_by_email (save_identity (u0 \<lparr> failedLoginAttempts := 0 \<rparr>) ids) e =
      Some (u0 \<lparr> failedLoginAttempts := 0 \<rparr>)"
    by (intro find_by_email_save [OF assms(1)]) simp_all
  from l have A: "AuthController_login (login cfg env now) e password req ids =
      (Inr \<lparr> set_cookies = [(''accessToken'', Some (pair_accessToken (issuePair env u0))),
                             (''refreshToken'', Some (pair_refreshToken (issuePair env u0)))],
             cleared_cookies = [], reply = Json_success \<rparr>,
       save_identity (u0 \<lparr> failedLoginAttempts := 0 \<rparr>) ids)"
    by (simp add: AuthController_login_def)
  have C: "failedLoginAttempts (u0 \<lparr> failedLoginAttempts := 0 \<rparr>) = 0" by simp
  show "\<exists>(tokens::token_pair) ids1 u1.
               AuthController_login (login cfg env now) e password req ids =
                 (Inr \<lparr> set_cookies = [(''accessToken'', Some (pair_accessToken tokens)),
                                        (''refreshToken'', Some (pair_refreshToken tokens))],
                        cleared_cookies = [], reply = Json_success \<rparr>, ids1)
             \<and> find_by_email ids1 e = Some u1 \<and> failedLoginAttempts u1 = 0"
    by (rule exI [where x = "issuePair env u0"],
        rule exI [where x = "save_identity (u0 \<lparr> failedLoginAttempts := 0 \<rparr>) ids"],
        rule exI [where x = "u0 \<lparr> failedLoginAttempts := 0 \<rparr>"])
      (simp add: A B)
qed

lemmas example_login_defs =
  login_def find_by_email_def save_identity_def demo_login_env_def demo_config_def alice_def
  alice_2fa_def alice_two_failures_def login_request_def locked_out_def AuthController_login_def

theorem login_challenge_or_token_pair_witness:
  "find_by_email [alice_2fa] ''a@x.com'' = Some alice_2fa
   \<and> passwordHash alice_2fa = Some ''h(p1)''
   \<and> verifyPassword demo_login_env ''p1'' ''h(p1)''
   \<and> \<not> locked_out alice_2fa 0 \<and> twoFactorEnabled alice_2fa
   \<and> (\<exists>challenge ids1.
         fst (login demo_config demo_login_env 0 ''a@x.com'' ''p1'' (ip login_request)
                (userAgent login_request) [alice_2fa]) =
           Inr \<lparr> lr_requires2FA = Some True, lr_tempToken = Some challenge,
                 lr_accessToken = None, lr_refreshToken = None \<rparr>
       \<and> AuthController_login (login demo_config demo_login_env 0) ''a@x.com'' ''p1''
           login_request [alice_2fa] =
           (Inr \<lparr> set_cookies = [], cleared_cookies = [],
                  reply = Json_requires2FA (Some challenge) \<rparr>, ids1))
   \<and> AuthController_login (login demo_config demo_login_env 0) ''a@x.com'' ''p1''
         login_request [alice_2fa] =
         (Inr \<lparr> set_cookies = [], cleared_cookies = [],
                reply = Json_requires2FA (Some ''challenge:u1'') \<rparr>, [alice_2fa])
   \<and> find_by_email [alice_two_failures] ''a@x.com'' = Some alice_two_failures
   \<and> \<not> twoFactorEnabled alice_two_failures
   \<and> (\<exists>(tokens::token_pair) ids1 u1.
         AuthController_login (login demo_config demo_login_env 0) ''a@x.com'' ''p1''
           login_request [alice_two_failures] =
           (Inr \<lparr> set_cookies = [(''accessToken'', Some (pair_accessToken tokens)),
                                  (''refreshToken'', Some (pair_refreshToken tokens))],
                  cleared_cookies = [], reply = Json_success \<rparr>, ids1)
       \<and> find_by_email ids1 ''a@x.com'' = Some u1 \<and> failedLoginAttempts u1 = 0)
   \<and> AuthController_login (login demo_config demo_login_env 0) ''a@x.com'' ''p1''
         login_request [alice_two_failures] =
         (Inr \<lparr> set_cookies = [(''accessToken'', Some ''access:u1''),
                                (''refreshToken'', Some ''refresh:u1'')],
                cleared_cookies = [], reply = Json_success \<rparr>, [alice])"
proof -
  have a: "find_by_email [alice_2fa] ''a@x.com'' = Some alice_2fa"
    "passwordHash alice_2fa = Some ''h(p1)''" "verifyPassword demo_login_env ''p1'' ''h(p1)''"
    "\<not> locked_out alice_2fa 0" "twoFactorEnabled alice_2fa"
    by (simp_all add: example_login_defs)
  have b: "find_by_email [alice_two_failures] ''a@x.com'' = Some alice_two_failures"
    "passwordHash alice_two_failures = Some ''h(p1)''" "\<not> locked_out alice_two_failures 0"
    "\<not> twoFactorEnabled alice_two_failures"
    by (simp_all add: example_login_defs)
  have r1: "AuthController_login (login demo_config demo_login_env 0) ''a@x.com'' ''p1''
         login_request [alice_2fa] =
         (Inr \<lparr> set_cookies = [], cleared_cookies = [],
                reply = Json_requires2FA (Some ''challenge:u1'') \<rparr>, [alice_2fa])"
    by (simp add: example_login_defs)
  have r2: "AuthController_login (login demo_config demo_login_env 0) ''a@x.com'' ''p1''
         login_request [alice_two_failures] =
         (Inr \<lparr> set_cookies = [(''accessToken'', Some ''access:u1''),
                                (''refreshToken'', Some ''refresh:u1'')],
                cleared_cookies = [], reply = Json_success \<rparr>, [alice])"
    by (simp add: example_login_defs)
  note t1 = login_challenge_or_token_pair [OF a(1) a(2) a(3) a(4), of demo_config login_request,
      THEN conjunct1, rule_format, OF a(5)]
  note t2 = login_challenge_or_token_pair [OF b(1) b(2) a(3) b(3), of demo_config login_request,
      THEN conjunct2, rule_format, OF b(4)]
  from a b(1,4) r1 r2 t1 t2 show ?thesis by (intro conjI) assumption+
qed

lemma login_wrong_password:
  assumes "find_by_email ids e = Some u" and "lockoutUntil u = None"
    and "passwordHash u = Some digest" and "\<not> verifyPassword env password digest"
  shows "login cfg env now e password a b ids =
           (Inl InvalidCredentials,
            save_identity
              (u \<lparr> failedLoginAttempts := Suc (failedLoginAttempts u),
                   lockoutUntil := (if lockoutThreshold cfg \<le> Suc (failedLoginAttempts u)
                                    then Some (now + lockoutWindow cfg) else None) \<rparr>) ids)"
  using assms by (simp add: login_def Let_def)

lemma login_attempts_wrong:
  assumes "find_by_email ids e = Some u" and "lockoutUntil u = None"
    and "passwordHash u = Some digest"
    and "\<forall>a \<in> set tries. \<not> verifyPassword env (snd a) digest"
    and "failedLoginAttempts u + length tries \<le> lockoutThreshold cfg"
  shows "\<exists>ids1 u1.
           login_attempts cfg env e tries ids =
             (replicate (length tries) (Inl InvalidCredentials), ids1)
         \<and> find_by_email ids1 e = Some u1
         \<and> failedLoginAttempts u1 = failedLoginAttempts u + length tries
         \<and> passwordHash u1 = Some digest
         \<and> twoFactorEnabled u1 = twoFactorEnabled u
         \<and> lockoutUntil u1 =
             (if tries \<noteq> [] \<and> failedLoginAttempts u + length tries = lockoutThreshold cfg
              then Some (fst (last tries) + lockoutWindow cfg) else None)"
  using assms
proof (induction tries arbitrary: ids u)
  case Nil
  then show ?case by simp
next
  case (Cons a rest)
  let ?u' = "u \<lparr> failedLoginAttempts := Suc (failedLoginAttempts u),
                   lockoutUntil := (if lockoutThreshold cfg \<le> Suc (failedLoginAttempts u)
                                    then Some (fst a + lockoutWindow cfg) else None) \<rparr>"
  from Cons.prems have wrong: "\<not> verifyPassword env (snd a) digest" by simp
  have step: "login cfg env (fst a) e (snd a) None None ids =
      (Inl InvalidCredentials, save_identity ?u' ids)"
    by (rule login_wrong_password [OF Cons.prems(1,2,3) wrong])
  have found: "find_by_email (save_identity ?u' ids) e = Some ?u'"
    using find_by_email_email [OF Cons.prems(1)]
    by (intro find_by_email_save [OF Cons.prems(1)]) simp_all
  show ?case
  proof (cases rest)
    case Nil
    with step found Cons.prems(3,5) show ?thesis by auto
  next
    case (Cons b rest')
    with Cons.prems(5) have below: "Suc (failedLoginAttempts u) < lockoutThreshold cfg" by simp
    then have unlocked: "lockoutUntil ?u' = None" by simp
    have hash: "passwordHash ?u' = Some digest" using Cons.prems(3) by simp
    have wrongs: "\<forall>a \<in> set rest. \<not> verifyPassword env (snd a) digest"
      using Cons.prems(4) by simp
    have bound: "failedLoginAttempts ?u' + length rest \<le> lockoutThreshold cfg"
      using Cons.prems(5) by simp
    from Cons.IH [OF found unlocked hash wrongs bound]
    obtain ids1 u1 where
      run: "login_attempts cfg env e rest (save_identity ?u' ids) =
             (replicate (length rest) (Inl InvalidCredentials), ids1)"
      and u1: "find_by_email ids1 e = Some u1"
        "failedLoginAttempts u1 = failedLoginAttempts ?u' + length rest"
        "passwordHash u1 = Some digest" "twoFactorEnabled u1 = twoFactorEnabled ?u'"
        "lockoutUntil u1 =
             (if rest \<noteq> [] \<and> failedLoginAttempts ?u' + length rest = lockoutThreshold cfg
              then Some (fst (last rest) + lockoutWindow cfg) else None)"
      by blast
    from step run have "login_attempts cfg env e (a # rest) ids =
        (replicate (length (a # rest)) (Inl InvalidCredentials), ids1)"
      by simp
    moreover from u1 Cons have "failedLoginAttempts u1 = failedLoginAttempts u + length (a # rest)"
      "twoFactorEnabled u1 = twoFactorEnabled u"
      "lockoutUntil u1 =
         (if a # rest \<noteq> [] \<and> failedLoginAttempts u + length (a # rest) = lockoutThreshold cfg
          then Some (fst (last (a # rest)) + lockoutWindow cfg) else None)"
      by simp_all
    ultimately show ?thesis using u1(1,3) by blast
  qed
qed

text \<open>
  C4. Take an identity with a clean counter and no lockout, and as many consecutive login
  attempts with wrong passwords as the configured threshold. Each of them fails with
  \<open>InvalidCredentials\<close>; afterwards the counter equals the threshold and lockout-until
  is the time of the last attempt plus the lockout window. Until that instant every login
  attempt, with the correct password or any other, fails with \<open>AccountLocked\<close> and
  leaves the store as it is. From that instant on the counter is reset by the next attempt:
  the correct password succeeds and leaves the counter at zero with no lockout, and a wrong
  password fails with \<open>InvalidCredentials\<close> and is counted as the first failure.
  While the lockout lasts, the session validator of the sources rejects the identity's
  tokens with \<open>AccountLocked\<close> as well (lines 67-70 of \<open>validate\<close>).
\<close>

theorem lockout_after_threshold_failures:
  assumes "find_by_email ids e = Some u" and "failedLoginAttempts u = 0"
    and "lockoutUntil u = None" and "passwordHash u = Some digest"
    and "verifyPassword env good digest"
    and "\<forall>a \<in> set tries. \<not> verifyPassword env (snd a) digest"
    and "length tries = lockoutThreshold cfg" and "tries \<noteq> []"
  shows "\<exists>ids1 u1.
           login_attempts cfg env e tries ids =
             (replicate (lockoutThreshold cfg) (Inl InvalidCredentials), ids1)
         \<and> find_by_email ids1 e = Some u1
         \<and> failedLoginAttempts u1 = lockoutThreshold cfg
         \<and> lockoutUntil u1 = Some (fst (last tries) + lockoutWindow cfg)
         \<and> (\<forall>now password a b. now < fst (last tries) + lockoutWindow cfg \<longrightarrow>
               login cfg env now e password a b ids1 = (Inl AccountLocked, ids1))
         \<and> (\<forall>now a b. fst (last tries) + lockoutWindow cfg \<le> now \<longrightarrow>
               (\<exists>r ids2 u2. login cfg env now e good a b ids1 = (Inr r, ids2)
                  \<and> find_by_email ids2 e = Some u2
                  \<and> failedLoginAttempts u2 = 0 \<and> lockoutUntil u2 = None))
         \<and> (\<forall>now password a b. fst (last tries) + lockoutWindow cfg \<le> now
                 \<and> \<not> verifyPassword env password digest \<longrightarrow>
               (\<exists>ids2 u2. login cfg env now e password a b ids1 = (Inl InvalidCredentials, ids2)
                  \<and> find_by_email ids2 e = Some u2 \<and> failedLoginAttempts u2 = 1))
         \<and> (\<forall>now isBl findById (req :: unit request) pl.
               now < fst (last tries) + lockoutWindow cfg \<and> findById (sub pl) = Some u1
                 \<and> \<not> token_revoked isBl req \<and> \<not> stale_by_seconds u1 pl \<longrightarrow>
               validate isBl findById now req pl = Inl AccountLocked)"
proof -
  let ?until = "fst (last tries) + lockoutWindow cfg"
  have bound: "failedLoginAttempts u + length tries \<le> lockoutThreshold cfg"
    using assms(2,7) by simp
  from login_attempts_wrong [OF assms(1,3,4,6) bound]
  obtain ids1 u1 where
    run: "login_attempts cfg env e tries ids =
            (replicate (length tries) (Inl InvalidCredentials), ids1)"
    and found: "find_by_email ids1 e = Some u1"
    and count: "failedLoginAttempts u1 = failedLoginAttempts u + length tries"
    and hash: "passwordHash u1 = Some digest"
    and until: "lockoutUntil u1 =
             (if tries \<noteq> [] \<and> failedLoginAttempts u + length tries = lockoutThreshold cfg
              then Some (fst (last tries) + lockoutWindow cfg) else None)"
    by blast
  from until assms(2,7,8) have until': "lockoutUntil u1 = Some ?until" by simp
  from count assms(2,7) have count': "failedLoginAttempts u1 = lockoutThreshold cfg" by simp
  have email: "user_email u1 = e" by (rule find_by_email_email [OF found])
  let ?u0 = "u1 \<lparr> failedLoginAttempts := 0, lockoutUntil := None \<rparr>"
  have locked: "login cfg env now e password a b ids1 = (Inl AccountLocked, ids1)"
    if "now < ?until" for now password a b
    using that found until' by (simp add: login_def)
  have good: "\<exists>r ids2 u2. login cfg env now e good a b ids1 = (Inr r, ids2)
                  \<and> find_by_email ids2 e = Some u2
                  \<and> failedLoginAttempts u2 = 0 \<and> lockoutUntil u2 = None"
    if "?until \<le> now" for now a b
  proof -
    have saved: "find_by_email (save_identity ?u0 ids1) e = Some ?u0"
      using email by (intro find_by_email_save [OF found]) simp_all
    have saved': "find_by_email (save_identity (?u0 \<lparr> failedLoginAttempts := 0 \<rparr>) ids1) e =
        Some (?u0 \<lparr> failedLoginAttempts := 0 \<rparr>)"
      using email by (intro find_by_email_save [OF found]) simp_all
    show ?thesis
    proof (cases "twoFactorEnabled u1")
      case True
      with that found until' hash assms(5)
      have "login cfg env now e good a b ids1 =
          (Inr \<lparr> lr_requires2FA = Some True, lr_tempToken = Some (issueChallenge env ?u0),
                 lr_accessToken = None, lr_refreshToken = None \<rparr>, save_identity ?u0 ids1)"
        by (simp add: login_def Let_def)
      with saved show ?thesis by force
    next
      case False
      with that found until' hash assms(5)
      have "login cfg env now e good a b ids1 =
          (Inr \<lparr> lr_requires2FA = None, lr_tempToken = None,
                 lr_accessToken = Some (pair_accessToken (issuePair env ?u0)),
                 lr_refreshToken = Some (pair_refreshToken (issuePair env ?u0)) \<rparr>,
           save_identity (?u0 \<lparr> failedLoginAttempts := 0 \<rparr>) ids1)"
        by (simp add: login_def Let_def)
      with saved' show ?thesis by force
    qed
  qed
  have wrong: "\<exists>ids2 u2. login cfg env now e password a b ids1 = (Inl InvalidCredentials, ids2)
                  \<and> find_by_email ids2 e = Some u2 \<and> failedLoginAttempts u2 = 1"
    if "?until \<le> now" and "\<not> verifyPassword env password digest" for now password a b
  proof -
    let ?u2 = "?u0 \<lparr> failedLoginAttempts := Suc 0,
                      lockoutUntil := (if lockoutThreshold cfg \<le> Suc 0
                                       then Some (now + lockoutWindow cfg) else None) \<rparr>"
    from that found until' hash
    have "login cfg env now e password a b ids1 = (Inl InvalidCredentials, save_identity ?u2 ids1)"
      by (simp add: login_def Let_def)
    moreover have "find_by_email (save_identity ?u2 ids1) e = Some ?u2"
      using email by (intro find_by_email_save [OF found]) simp_all
    ultimately show ?thesis by force
  qed
  from run assms(7) have run': "login_attempts cfg env e tries ids =
      (replicate (lockoutThreshold cfg) (Inl InvalidCredentials), ids1)" by simp
  have session: "validate isBl findById now req pl = Inl AccountLocked"
    if "now < ?until" and "findById (sub pl) = Some u1" and "\<not> token_revoked isBl req"
      and "\<not> stale_by_seconds u1 pl"
    for now isBl findById pl and req :: "unit request"
    using that until' by (simp add: validate_unfold locked_out_def)
  from run' found count' until' locked good wrong session show ?thesis by blast
qed

theorem lockout_after_threshold_failures_witness:
  "find_by_email [alice] ''a@x.com'' = Some alice \<and> failedLoginAttempts alice = 0
   \<and> lockoutUntil alice = None \<and> passwordHash alice = Some ''h(p1)''
   \<and> verifyPassword demo_login_env ''p1'' ''h(p1)''
   \<and> \<not> verifyPassword demo_login_env ''guess1'' ''h(p1)''
   \<and> \<not> verifyPassword demo_login_env ''guess2'' ''h(p1)''
   \<and> \<not> verifyPassword demo_login_env ''guess3'' ''h(p1)''
   \<and> length three_wrong_tries = lockoutThreshold demo_config
   \<and> login_attempts demo_config demo_login_env ''a@x.com'' three_wrong_tries [alice] =
       ([Inl InvalidCredentials, Inl InvalidCredentials, Inl InvalidCredentials], [alice_locked])
   \<and> login demo_config demo_login_env 902999 ''a@x.com'' ''p1'' None None [alice_locked] =
       (Inl AccountLocked, [alice_locked])
   \<and> login demo_config demo_login_env 903000 ''a@x.com'' ''p1'' None None [alice_locked] =
       (Inr \<lparr> lr_requires2FA = None, lr_tempToken = None, lr_accessToken = Some ''access:u1'',
              lr_refreshToken = Some ''refresh:u1'' \<rparr>, [alice])"
proof -
  have h: "find_by_email [alice] ''a@x.com'' = Some alice" "failedLoginAttempts alice = 0"
    "lockoutUntil alice = None" "passwordHash alice = Some ''h(p1)''"
    "verifyPassword demo_login_env ''p1'' ''h(p1)''"
    by (simp_all add: example_login_defs)
  have w: "\<not> verifyPassword demo_login_env ''guess1'' ''h(p1)''"
    "\<not> verifyPassword demo_login_env ''guess2'' ''h(p1)''"
    "\<not> verifyPassword demo_login_env ''guess3'' ''h(p1)''"
    by (simp_all add: demo_login_env_def)
  from w have ws: "\<forall>a \<in> set three_wrong_tries. \<not> verifyPassword demo_login_env (snd a) ''h(p1)''"
    by (simp add: three_wrong_tries_def)
  have n: "length three_wrong_tries = lockoutThreshold demo_config" "three_wrong_tries \<noteq> []"
    by (simp_all add: three_wrong_tries_def demo_config_def)
  have l: "fst (last three_wrong_tries) + lockoutWindow demo_config = 903000"
    by (simp add: three_wrong_tries_def demo_config_def)
  from lockout_after_threshold_failures [OF h ws n]
  obtain ids1 u1 where
    run: "login_attempts demo_config demo_login_env ''a@x.com'' three_wrong_tries [alice] =
             (replicate (lockoutThreshold demo_config) (Inl InvalidCredentials), ids1)"
    and locked: "\<And>now password a b. now < 903000 \<Longrightarrow>
       login demo_config demo_login_env now ''a@x.com'' password a b ids1 = (Inl AccountLocked, ids1)"
    unfolding l by blast
  have ev: "login_attempts demo_config demo_login_env ''a@x.com'' three_wrong_tries [alice] =
       ([Inl InvalidCredentials, Inl InvalidCredentials, Inl InvalidCredentials], [alice_locked])"
    by (simp add: three_wrong_tries_def alice_locked_def example_login_defs)
  from run ev have ids1: "ids1 = [alice_locked]" by simp
  from locked [of 902999 "''p1''" None None] ids1
  have r1: "login demo_config demo_login_env 902999 ''a@x.com'' ''p1'' None None [alice_locked] =
       (Inl AccountLocked, [alice_locked])" by simp
  have r2: "login demo_config demo_login_env 903000 ''a@x.com'' ''p1'' None None [alice_locked] =
       (Inr \<lparr> lr_requires2FA = None, lr_tempToken = None, lr_accessToken = Some ''access:u1'',
              lr_refreshToken = Some ''refresh:u1'' \<rparr>, [alice])"
    by (simp add: alice_locked_def example_login_defs)
  from h w n(1) ev r1 r2 show ?thesis by (intro conjI) assumption+
qed

section \<open>Properties of refresh-token rotation\<close>

lemma apply_op_grows:
  "set (rotated st) \<subseteq> set (rotated (apply_op cfg decode sign op st))
   \<and> set (revokedFamilies st) \<subseteq> set (revokedFamilies (apply_op cfg decode sign op st))"
  by (cases op)
    (auto simp: apply_op_def refreshAccessToken_def rotate_def logout_def revoke_token_def
      revoke_def revokeFamily_def split: option.splits)

lemma run_ops_grows:
  "set (rotated st) \<subseteq> set (rotated (run_ops cfg decode sign ops st))
   \<and> set (revokedFamilies st) \<subseteq> set (revokedFamilies (run_ops cfg decode sign ops st))"
proof (induction ops arbitrary: st)
  case Nil
  then show ?case by simp
next
  case (Cons op ops)
  from apply_op_grows [of st cfg decode sign op] Cons.IH [of "apply_op cfg decode sign op st"]
  show ?case by auto
qed

lemma refresh_success:
  assumes "refreshAccessToken cfg decode sign now token a b st = (Inr result, st1)"
  shows "\<exists>c. decode token = Some c \<and> c_refresh c \<and> now < c_expiry c \<and> \<not> isRevoked st c
            \<and> c_id c \<notin> set (rotated st)
            \<and> st1 = st \<lparr> rotated := c_id c # rotated st, minted := minted st + 2 \<rparr>
            \<and> lr_accessToken result = Some (sign (minted_access cfg now c st))
            \<and> lr_refreshToken result = Some (sign (minted_refresh cfg now c st))"
  using assms
  by (auto simp: refreshAccessToken_def rotate_def split: option.splits if_splits)

lemma minted_pair_same_family:
  "c_family (minted_access cfg now c st) = c_family c"
  "c_family (minted_refresh cfg now c st) = c_family c"
  "c_sub (minted_access cfg now c st) = c_sub c"
  "c_sub (minted_refresh cfg now c st) = c_sub c"
  "\<not> c_refresh (minted_access cfg now c st)"
  "c_refresh (minted_refresh cfg now c st)"
  "c_id (minted_access cfg now c st) \<noteq> c_id (minted_refresh cfg now c st)"
  by (simp_all add: minted_access_def minted_refresh_def)

lemma refresh_rotated_replay:
  assumes "decode token = Some c" and "c_refresh c" and "c_id c \<in> set (rotated st)"
  shows "refreshAccessToken cfg decode sign now token a b st =
           (Inl TokenReplayDetected, revokeFamily (c_family c) st)"
  using assms by (simp add: refreshAccessToken_def)

lemma family_revoked_blacklisted:
  assumes "decode t = Some c" and "c_family c \<in> set (revokedFamilies st)"
  shows "TokenBlacklistService_isTokenBlacklisted decode st t"
  using assms by (simp add: TokenBlacklistService_isTokenBlacklisted_def isRevoked_def)

text \<open>
  The rotation of the specification keeps what C5 asks of it. Once a call of
  \<open>refreshAccessToken\<close> on a refresh token has succeeded, every later call with that
  token, after any sequence of refresh and logout calls and at any time, fails with
  \<open>TokenReplayDetected\<close> and revokes the token's family, also through
  \<open>AuthController.refreshToken\<close>; the pair the successful call minted is of that family;
  and once the family is revoked, the registry reports every token of the family as
  blacklisted, whatever calls follow.
\<close>

lemma rotated_token_replay_revokes_family:
  assumes "refreshAccessToken cfg decode sign now token a b st = (Inr result, st1)"
  shows "\<exists>c. decode token = Some c
         \<and> (\<forall>ops t a' b'.
               refreshAccessToken cfg decode sign t token a' b' (run_ops cfg decode sign ops st1) =
                 (Inl TokenReplayDetected,
                  revokeFamily (c_family c) (run_ops cfg decode sign ops st1)))
         \<and> (\<forall>ops t (req :: unit request).
               map_of (cookies req) ''refreshToken'' = Some token \<and> token \<noteq> [] \<longrightarrow>
               AuthController_refreshToken (refreshAccessToken cfg decode sign t) req
                   (run_ops cfg decode sign ops st1) =
                 (Inl TokenReplayDetected,
                  revokeFamily (c_family c) (run_ops cfg decode sign ops st1)))
         \<and> lr_accessToken result = Some (sign (minted_access cfg now c st))
         \<and> lr_refreshToken result = Some (sign (minted_refresh cfg now c st))
         \<and> c_family (minted_access cfg now c st) = c_family c
         \<and> c_family (minted_refresh cfg now c st) = c_family c
         \<and> (\<forall>st2 ops other c'.
               c_family c \<in> set (revokedFamilies st2) \<and> decode other = Some c'
               \<and> c_family c' = c_family c \<longrightarrow>
               TokenBlacklistService_isTokenBlacklisted decode
                 (run_ops cfg decode sign ops st2) other)"
proof -
  from refresh_success [OF assms] obtain c where
    c: "decode token = Some c" and fresh: "c_refresh c"
    and st1: "st1 = st \<lparr> rotated := c_id c # rotated st, minted := minted st + 2 \<rparr>"
    and pair: "lr_accessToken result = Some (sign (minted_access cfg now c st))"
      "lr_refreshToken result = Some (sign (minted_refresh cfg now c st))"
    by blast
  have rot: "c_id c \<in> set (rotated (run_ops cfg decode sign ops st1))" for ops
    using run_ops_grows [of st1 cfg decode sign ops] st1 by auto
  have replay: "refreshAccessToken cfg decode sign t token a' b' (run_ops cfg decode sign ops st1) =
                 (Inl TokenReplayDetected,
                  revokeFamily (c_family c) (run_ops cfg decode sign ops st1))" for ops t a' b'
    using c fresh rot [of ops] by (simp add: refresh_rotated_replay)
  have replay_http: "AuthController_refreshToken (refreshAccessToken cfg decode sign t) req
                   (run_ops cfg decode sign ops st1) =
                 (Inl TokenReplayDetected,
                  revokeFamily (c_family c) (run_ops cfg decode sign ops st1))"
    if "map_of (cookies req) ''refreshToken'' = Some token" "token \<noteq> []"
    for ops t and req :: "unit request"
    using that by (simp add: AuthController_refreshToken_def replay)
  have family: "TokenBlacklistService_isTokenBlacklisted decode
                 (run_ops cfg decode sign ops st2) other"
    if "c_family c \<in> set (revokedFamilies st2)" "decode other = Some c'"
      "c_family c' = c_family c"
    for st2 ops other c'
  proof -
    have "c_family c' \<in> set (revokedFamilies (run_ops cfg decode sign ops st2))"
      using run_ops_grows [of st2 cfg decode sign ops] that(1,3) by auto
    with that(2) show ?thesis by (rule family_revoked_blacklisted)
  qed
  from c replay replay_http pair minted_pair_same_family(1,2) [of cfg now c st] family
  show ?thesis by blast
qed

lemma blacklisted_presented_rejected:
  assumes "reads_presented_token req" and "presents req t" and "verify t = Some pl"
    and "isBl t"
  shows "authenticate verify isBl findById now req = Inl TokenRevoked"
  using assms
  by (simp add: authenticate_presented validate_unfold presented_token_revoked)

lemma example_tokens:
  "demo_decode ''tokR'' = Some tokR_claims"
  "demo_decode ''tokA2'' =
     Some \<lparr> c_sub = ''u1'', c_id = 13, c_family = 7, c_expiry = 960000, c_refresh = False \<rparr>"
  "demo_decode ''tokR2'' =
     Some \<lparr> c_sub = ''u1'', c_id = 14, c_family = 7, c_expiry = 2592060000, c_refresh = True \<rparr>"
  "demo_sign (minted_access demo_config 60000 tokR_claims after_login) = ''tokA2''"
  "demo_sign (minted_refresh demo_config 60000 tokR_claims after_login) = ''tokR2''"
  by (simp_all add: demo_decode_def demo_sign_def tokR_claims_def minted_access_def
      minted_refresh_def demo_config_def after_login_def)

text \<open>
  C5, evaluated on the code. The refresh token \<open>tokR\<close> is rotated, which mints \<open>tokA2\<close>
  and \<open>tokR2\<close> of the same family; its second use, also through
  \<open>AuthController.refreshToken\<close>, fails with \<open>TokenReplayDetected\<close> and revokes the
  family, and the registry then reports \<open>tokA2\<close> as blacklisted. A request presenting
  \<open>tokA2\<close> as \<open>Authorization: Bearer tokA2\<close> is rejected with \<open>TokenRevoked\<close>. A
  request presenting it as \<open>Authorization: bearer tokA2\<close> is not: the extractor takes
  \<open>tokA2\<close> from the header, line 43 of \<open>validate\<close> asks the registry about
  \<open>bearer tokA2\<close>, which is no token, and the principal is returned. This is the
  defect shown under C1.
\<close>

theorem family_token_validates_after_replay:
  "refreshAccessToken demo_config demo_decode demo_sign 60000 ''tokR'' None None after_login =
      (Inr \<lparr> lr_requires2FA = None, lr_tempToken = None, lr_accessToken = Some ''tokA2'',
             lr_refreshToken = Some ''tokR2'' \<rparr>, rotated_once)
   \<and> refreshAccessToken demo_config demo_decode demo_sign 61000 ''tokR'' None None rotated_once =
      (Inl TokenReplayDetected, revokeFamily 7 rotated_once)
   \<and> AuthController_refreshToken (refreshAccessToken demo_config demo_decode demo_sign 61000)
        (refresh_request ''tokR'') rotated_once =
      (Inl TokenReplayDetected, revokeFamily 7 rotated_once)
   \<and> TokenBlacklistService_isTokenBlacklisted demo_decode (revokeFamily 7 rotated_once) ''tokA2''
   \<and> authenticate demo_verify
        (TokenBlacklistService_isTokenBlacklisted demo_decode (revokeFamily 7 rotated_once))
        (map_of [(''u1'', fresh_alice)]) 62000 (bearer_request ''tokA2'') = Inl TokenRevoked
   \<and> presents (lowercase_bearer_request ''tokA2'') ''tokA2''
   \<and> request_token (lowercase_bearer_request ''tokA2'') = Some ''bearer tokA2''
   \<and> authenticate demo_verify
        (TokenBlacklistService_isTokenBlacklisted demo_decode (revokeFamily 7 rotated_once))
        (map_of [(''u1'', fresh_alice)]) 62000 (lowercase_bearer_request ''tokA2'') =
       Inr (principal_of (alice_payload 60))
   \<and> validate
        (TokenBlacklistService_isTokenBlacklisted demo_decode (revokeFamily 7 rotated_once))
        (map_of [(''u1'', fresh_alice)]) 62000 (lowercase_bearer_request ''tokA2'')
        (alice_payload 60) = Inr (principal_of (alice_payload 60))"
proof -
  have first: "refreshAccessToken demo_config demo_decode demo_sign 60000 ''tokR'' None None
      after_login =
      (Inr \<lparr> lr_requires2FA = None, lr_tempToken = None, lr_accessToken = Some ''tokA2'',
             lr_refreshToken = Some ''tokR2'' \<rparr>, rotated_once)"
    by (simp add: refreshAccessToken_def rotate_def example_tokens isRevoked_def)
      (simp add: tokR_claims_def after_login_def rotated_once_def)
  have second: "refreshAccessToken demo_config demo_decode demo_sign 61000 ''tokR'' None None
      rotated_once = (Inl TokenReplayDetected, revokeFamily 7 rotated_once)"
    by (simp add: refreshAccessToken_def example_tokens)
      (simp add: tokR_claims_def rotated_once_def)
  have http: "AuthController_refreshToken
        (refreshAccessToken demo_config demo_decode demo_sign 61000)
        (refresh_request ''tokR'') rotated_once =
      (Inl TokenReplayDetected, revokeFamily 7 rotated_once)"
    by (simp add: AuthController_refreshToken_def refresh_request_def second)
  have bl: "TokenBlacklistService_isTokenBlacklisted demo_decode (revokeFamily 7 rotated_once)
      s = (s \<in> {''tokA'', ''tokR'', ''tokA2'', ''tokR2''})" for s
    by (auto simp: TokenBlacklistService_isTokenBlacklisted_def isRevoked_def demo_decode_def
        revokeFamily_def rotated_once_def split: option.splits if_splits)
  have rq: "jwtFromRequest (bearer_request ''tokA2'') = Some ''tokA2''"
    "jwtFromRequest (lowercase_bearer_request ''tokA2'') = Some ''tokA2''"
    "request_token (bearer_request ''tokA2'') = Some ''tokA2''"
    "request_token (lowercase_bearer_request ''tokA2'') = Some ''bearer tokA2''"
    by (simp_all add: jwtFromRequest_def request_token_def js_or_def truthy_def
        fromAuthHeaderAsBearerToken_def parseAuthHeader_def lower_char_def is_space_def
        bearer_request_def lowercase_bearer_request_def)
  have v: "demo_verify ''tokA2'' = Some (alice_payload 60)" by (simp add: demo_verify_def)
  have ok: "\<not> stale_by_seconds fresh_alice (alice_payload 60)" "\<not> locked_out fresh_alice 62000"
    "sub (alice_payload 60) = ''u1''"
    by (simp_all add: stale_by_seconds_def locked_out_def fresh_alice_def alice_def
        alice_payload_def)
  have r1: "authenticate demo_verify
        (TokenBlacklistService_isTokenBlacklisted demo_decode (revokeFamily 7 rotated_once))
        (map_of [(''u1'', fresh_alice)]) 62000 (bearer_request ''tokA2'') = Inl TokenRevoked"
    by (simp add: authenticate_def rq v validate_unfold token_revoked_def bl)
  have r2: "validate
        (TokenBlacklistService_isTokenBlacklisted demo_decode (revokeFamily 7 rotated_once))
        (map_of [(''u1'', fresh_alice)]) 62000 (lowercase_bearer_request ''tokA2'')
        (alice_payload 60) = Inr (principal_of (alice_payload 60))"
    by (simp add: validate_unfold token_revoked_def rq bl ok)
  have r3: "authenticate demo_verify
        (TokenBlacklistService_isTokenBlacklisted demo_decode (revokeFamily 7 rotated_once))
        (map_of [(''u1'', fresh_alice)]) 62000 (lowercase_bearer_request ''tokA2'') =
       Inr (principal_of (alice_payload 60))"
    using r2 by (simp add: authenticate_def rq v)
  have p: "presents (lowercase_bearer_request ''tokA2'') ''tokA2''"
    by (simp add: presents_def rq)
  have b2: "TokenBlacklistService_isTokenBlacklisted demo_decode (revokeFamily 7 rotated_once)
      ''tokA2''"
    by (simp add: bl)
  from first second http b2 r1 p rq(4) r3 r2
  show ?thesis by (intro conjI) assumption+
qed

end
